theory Spec2Isabelle
  imports Main
begin

section \<open>Secure video proxy worker: the model\<close>

text \<open>
  The repository holds two variants of one Cloudflare Worker, each a single function
  \<^verbatim>\<open>handleRequest(request)\<close>: \<^verbatim>\<open>cloudflare_worder.js\<close>, whose domain allowlist is commented
  out, and a second file whose allowlist is active and holds two entries. Both are embedded
  below.

  Conventions of the embedding.
  \<^item> A JavaScript string is a \<open>string\<close>; one \<open>char\<close> stands for one code unit in the range
    U+0000..U+00FF. This is exactly the range of the strings \<^verbatim>\<open>atob\<close> returns and of header
    values (byte strings).
  \<^item> \<^verbatim>\<open>null\<close> is \<open>None\<close>.
  \<^item> A thrown exception is \<open>Inl msg\<close>, where \<open>msg\<close> is the \<^verbatim>\<open>message\<close> of the error object.
  \<^item> What the platform supplies (the URL parser, the Request constructor's own parse of its
    input and its other checks, the texts of the Response constructor's errors, and
    \<^verbatim>\<open>fetch\<close>) is a parameter of the handler, the record \<open>platform\<close>.
  \<^item> The handler returns, next to the response, the request it handed to \<^verbatim>\<open>fetch\<close>, if any:
    that makes "no outbound fetch" and "the outbound request is ..." statements about a value.
\<close>

subsection \<open>Strings\<close>

definition startsWith :: "string \<Rightarrow> string \<Rightarrow> bool" where
  \<comment> \<open>\<^verbatim>\<open>s.startsWith(p)\<close>\<close>
  "startsWith s p = (take (length p) s = p)"

fun includes_str :: "string \<Rightarrow> string \<Rightarrow> bool" where
  \<comment> \<open>\<^verbatim>\<open>s.includes(t)\<close>: \<open>t\<close> occurs in \<open>s\<close> as a contiguous substring\<close>
  "includes_str [] t = (t = [])"
| "includes_str (c # s) t = (startsWith (c # s) t \<or> includes_str s t)"

definition toLowerCase_char :: "char \<Rightarrow> char" where
  "toLowerCase_char c =
     (case map_of (zip ''ABCDEFGHIJKLMNOPQRSTUVWXYZ'' ''abcdefghijklmnopqrstuvwxyz'') c of
        None \<Rightarrow> c
      | Some d \<Rightarrow> d)"

definition toLowerCase :: "string \<Rightarrow> string" where
  "toLowerCase s = map toLowerCase_char s"

definition or_default :: "string option \<Rightarrow> string \<Rightarrow> string" where
  \<comment> \<open>\<^verbatim>\<open>x || d\<close> for \<open>x\<close> a string or \<^verbatim>\<open>null\<close>: \<^verbatim>\<open>null\<close> and the empty string are falsy\<close>
  "or_default x d = (case x of None \<Rightarrow> d | Some v \<Rightarrow> if v = [] then d else v)"

subsection \<open>Headers, requests, responses\<close>

text \<open>
  A \<^verbatim>\<open>Headers\<close> object is a map from lower-cased header names to values: the platform
  matches names case-insensitively. Values read from a \<^verbatim>\<open>Headers\<close> object and the constants
  of the source are already normalised, so \<^verbatim>\<open>set\<close> stores them unchanged.
\<close>

type_synonym Headers = "string \<rightharpoonup> string"

definition Headers_get :: "Headers \<Rightarrow> string \<Rightarrow> string option" where
  "Headers_get h name = h (toLowerCase name)"

definition Headers_has :: "Headers \<Rightarrow> string \<Rightarrow> bool" where
  "Headers_has h name = (h (toLowerCase name) \<noteq> None)"

definition Headers_set :: "Headers \<Rightarrow> string \<Rightarrow> string \<Rightarrow> Headers" where
  "Headers_set h name v = h(toLowerCase name \<mapsto> v)"

definition Headers_new :: "(string \<times> string) list \<Rightarrow> Headers" where
  \<comment> \<open>\<^verbatim>\<open>new Headers({...})\<close>, and the \<^verbatim>\<open>headers: {...}\<close> member of an init object\<close>
  "Headers_new kvs = foldl (\<lambda>h (k, v). Headers_set h k v) Map.empty kvs"

record message =
  headers :: Headers
  body :: "string option"

record request = message +
  http_method :: string
  url :: string

record response = message +
  status :: nat

subsection \<open>The platform\<close>

record URL =
  href :: string
  hostname :: string
  searchParams :: "(string \<times> string) list"

definition searchParams_get :: "URL \<Rightarrow> string \<Rightarrow> string option" where
  \<comment> \<open>\<^verbatim>\<open>url.searchParams.get(name)\<close>: the first value of that name, or \<^verbatim>\<open>null\<close>\<close>
  "searchParams_get u name = map_of (searchParams u) name"

record platform =
  URL_new :: "string \<Rightarrow> string + URL"
    \<comment> \<open>\<^verbatim>\<open>new URL(s)\<close>; \<open>Inl msg\<close> is the TypeError of an unparseable string\<close>
  Request_parse :: "string \<Rightarrow> string + string"
    \<comment> \<open>the parse that \<^verbatim>\<open>new Request(input, ...)\<close> makes of its input, by itself and with its
        own error text: \<open>Inl msg\<close> is its TypeError, \<open>Inr h\<close> the URL of the request built\<close>
  Request_guard :: "request \<Rightarrow> string option"
    \<comment> \<open>the TypeError \<^verbatim>\<open>new Request\<close> raises for a reason other than an unparseable URL
        (a forbidden method, credentials in the URL), if any\<close>
  Response_RangeError :: string
    \<comment> \<open>the message of the RangeError of \<^verbatim>\<open>new Response\<close>\<close>
  Response_TypeError :: string
    \<comment> \<open>the message of the TypeError of \<^verbatim>\<open>new Response\<close>\<close>
  fetch :: "request \<Rightarrow> string + response"
    \<comment> \<open>\<^verbatim>\<open>await fetch(request)\<close>; \<open>Inl msg\<close> is a rejection (network failure)\<close>

definition Request_new ::
  "platform \<Rightarrow> string \<Rightarrow> string \<Rightarrow> (string \<times> string) list \<Rightarrow> string + request" where
  \<comment> \<open>\<^verbatim>\<open>new Request(input, {method, headers})\<close>: no body member, so the request has none\<close>
  "Request_new P input m hs =
     (case Request_parse P input of
        Inl e \<Rightarrow> Inl e
      | Inr h \<Rightarrow>
          (let r = \<lparr>headers = Headers_new hs, body = None, http_method = m, url = h\<rparr>
           in case Request_guard P r of Some e \<Rightarrow> Inl e | None \<Rightarrow> Inr r))"

definition Response_object :: "string option \<Rightarrow> nat option \<Rightarrow> Headers \<Rightarrow> response" where
  \<comment> \<open>the object that \<^verbatim>\<open>new Response(body, {status, headers})\<close> returns when it returns one;
      the status defaults to 200\<close>
  "Response_object b st h =
     \<lparr>headers = h, body = b, status = (case st of None \<Rightarrow> 200 | Some s \<Rightarrow> s)\<rparr>"

definition Response_new ::
  "platform \<Rightarrow> string option \<Rightarrow> nat option \<Rightarrow> Headers \<Rightarrow> string + response" where
  \<comment> \<open>\<^verbatim>\<open>new Response(body, {status, headers})\<close>: a RangeError unless the status is in
      200..599, a TypeError for a body with a null-body status\<close>
  "Response_new P b st h =
     (let s = (case st of None \<Rightarrow> 200 | Some s \<Rightarrow> s)
      in if s < 200 \<or> 599 < s then Inl (Response_RangeError P)
         else if b \<noteq> None \<and> s \<in> {101, 103, 204, 205, 304} then Inl (Response_TypeError P)
         else Inr (Response_object b st h))"

subsection \<open>\<^verbatim>\<open>JSON.stringify\<close> on objects with string members\<close>

definition hex_digit :: "nat \<Rightarrow> char" where
  "hex_digit n = ''0123456789abcdef'' ! (n mod 16)"

definition QuoteJSON_char :: "char \<Rightarrow> string" where
  "QuoteJSON_char c =
     (if c = CHR 0x08 then [CHR 0x5C, CHR ''b'']
      else if c = CHR 0x09 then [CHR 0x5C, CHR ''t'']
      else if c = CHR 0x0A then [CHR 0x5C, CHR ''n'']
      else if c = CHR 0x0C then [CHR 0x5C, CHR ''f'']
      else if c = CHR 0x0D then [CHR 0x5C, CHR ''r'']
      else if c = CHR 0x22 then [CHR 0x5C, CHR 0x22]
      else if c = CHR 0x5C then [CHR 0x5C, CHR 0x5C]
      else if (of_char c :: nat) < 32
        then [CHR 0x5C, CHR ''u'', CHR ''0'', CHR ''0'',
              hex_digit (of_char c div 16), hex_digit (of_char c)]
      else [c])"

definition QuoteJSONString :: "string \<Rightarrow> string" where
  "QuoteJSONString s = [CHR 0x22] @ concat (map QuoteJSON_char s) @ [CHR 0x22]"

fun JSON_members :: "(string \<times> string) list \<Rightarrow> string" where
  "JSON_members [] = []"
| "JSON_members [(k, v)] = QuoteJSONString k @ '':'' @ QuoteJSONString v"
| "JSON_members ((k, v) # kvs) =
     QuoteJSONString k @ '':'' @ QuoteJSONString v @ '','' @ JSON_members kvs"

definition JSON_stringify :: "(string \<times> string) list \<Rightarrow> string" where
  "JSON_stringify obj = ''{'' @ JSON_members obj @ ''}''"

subsection \<open>\<^verbatim>\<open>atob\<close>: forgiving Base64 decoding\<close>

text \<open>
  \<^verbatim>\<open>atob\<close> strips ASCII whitespace, drops one or two trailing \<^verbatim>\<open>=\<close> when the length is a
  multiple of four, throws when the remaining length is 1 modulo 4 or a character is
  outside the Base64 alphabet, and otherwise returns the string whose code units are the
  decoded bytes. A throw is \<open>None\<close>.
\<close>

definition base64_alphabet :: string where
  "base64_alphabet = ''ABCDEFGHIJKLMNOPQRSTUVWXYZabcdefghijklmnopqrstuvwxyz0123456789+/''"

fun index_of :: "'a \<Rightarrow> 'a list \<Rightarrow> nat option" where
  "index_of c [] = None"
| "index_of c (x # xs) = (if c = x then Some 0 else map_option Suc (index_of c xs))"

definition is_ascii_whitespace :: "char \<Rightarrow> bool" where
  "is_ascii_whitespace c = (c \<in> set [CHR 0x09, CHR 0x0A, CHR 0x0C, CHR 0x0D, CHR 0x20])"

definition strip_padding :: "string \<Rightarrow> string" where
  "strip_padding d =
     (if length d mod 4 = 0 \<and> d \<noteq> [] \<and> last d = CHR ''=''
      then (let d1 = butlast d
            in if d1 \<noteq> [] \<and> last d1 = CHR ''='' then butlast d1 else d1)
      else d)"

fun decode_sextets :: "nat list \<Rightarrow> nat list" where
  "decode_sextets (a # b # c # d # r) =
     [a * 4 + b div 16, (b mod 16) * 16 + c div 4, (c mod 4) * 64 + d] @ decode_sextets r"
| "decode_sextets [a, b, c] = [a * 4 + b div 16, (b mod 16) * 16 + c div 4]"
| "decode_sextets [a, b] = [a * 4 + b div 16]"
| "decode_sextets _ = []"

definition atob :: "string \<Rightarrow> string option" where
  "atob data =
     (let d = strip_padding (filter (\<lambda>c. \<not> is_ascii_whitespace c) data)
      in if length d mod 4 = 1 then None
         else case those (map (\<lambda>c. index_of c base64_alphabet) d) of
                None \<Rightarrow> None
              | Some ss \<Rightarrow> Some (map char_of (decode_sextets ss)))"

subsection \<open>The responses the handler builds\<close>

text \<open>
  The responses with a literal status (200 by default, 400, 403, 500) are written with
  \<open>Response_object\<close>: for these statuses the constructor does not throw, whatever the
  platform, and returns that object (\<open>literal_responses_constructed\<close> below). The relay's
  status is the origin's, and there the constructor's errors are branches.
\<close>

definition cors_preflight :: response where
  "cors_preflight =
     Response_object None None
       (Headers_new
          [(''Access-Control-Allow-Origin'', ''*''),
           (''Access-Control-Allow-Methods'', ''GET, HEAD, OPTIONS''),
           (''Access-Control-Allow-Headers'', ''Range, Content-Type'')])"

definition error_response :: "nat \<Rightarrow> (string \<times> string) list \<Rightarrow> response" where
  \<comment> \<open>\<^verbatim>\<open>new Response(JSON.stringify(obj), {status, headers: {'Content-Type': 'application/json'}})\<close>\<close>
  "error_response st obj =
     Response_object (Some (JSON_stringify obj)) (Some st)
       (Headers_new [(''Content-Type'', ''application/json'')])"

definition server_error :: "string \<Rightarrow> response" where
  \<comment> \<open>the outer \<^verbatim>\<open>catch (error)\<close>\<close>
  "server_error msg = error_response 500 [(''error'', ''Server error''), (''message'', msg)]"

definition relay :: "platform \<Rightarrow> response \<Rightarrow> string + response" where
  \<comment> \<open>from \<^verbatim>\<open>const responseHeaders = new Headers({...})\<close> to the final \<^verbatim>\<open>return\<close>\<close>
  "relay P videoResponse =
     (let responseHeaders = Headers_new
            [(''Content-Type'',
                or_default (Headers_get (headers videoResponse) ''Content-Type'') ''video/mp4''),
             (''Accept-Ranges'',
                or_default (Headers_get (headers videoResponse) ''Accept-Ranges'') ''bytes''),
             (''Access-Control-Allow-Origin'', ''*''),
             (''Access-Control-Allow-Methods'', ''GET, HEAD, OPTIONS''),
             (''Access-Control-Allow-Headers'', ''Range, Content-Type''),
             (''Cache-Control'', ''public, max-age=3600'')];
          responseHeaders =
            (if Headers_has (headers videoResponse) ''Content-Length''
             then Headers_set responseHeaders ''Content-Length''
                    (the (Headers_get (headers videoResponse) ''Content-Length''))
             else responseHeaders);
          responseHeaders =
            (if Headers_has (headers videoResponse) ''Content-Range''
             then Headers_set responseHeaders ''Content-Range''
                    (the (Headers_get (headers videoResponse) ''Content-Range''))
             else responseHeaders)
      in Response_new P (body videoResponse) (Some (status videoResponse)) responseHeaders)"

subsection \<open>The handler\<close>

definition forward :: "platform \<Rightarrow> request \<Rightarrow> string \<Rightarrow> request option \<times> (string + response)" where
  \<comment> \<open>build the request to the origin, fetch, relay: the same in both files\<close>
  "forward P request originalUrl =
     (case Request_new P originalUrl (http_method request)
             [(''User-Agent'', ''Mozilla/5.0 (Windows NT 10.0; Win64; x64) AppleWebKit/537.36''),
              (''Accept'', or_default (Headers_get (headers request) ''Accept'') ''*/*''),
              (''Accept-Language'', ''en-US,en;q=0.9''),
              (''Range'', or_default (Headers_get (headers request) ''Range'') '''')] of
        Inl e \<Rightarrow> (None, Inl e)
      | Inr videoRequest \<Rightarrow>
          (Some videoRequest,
           case fetch P videoRequest of
             Inl e \<Rightarrow> Inl e
           | Inr videoResponse \<Rightarrow> relay P videoResponse))"

definition allowedDomains_2 :: "string list" where
  \<comment> \<open>the \<^verbatim>\<open>const allowedDomains\<close> of the second file\<close>
  "allowedDomains_2 = [''commondatastorage.googleapis.com'', ''storage.googleapis.com'']"

definition try_with ::
  "platform \<Rightarrow> string list \<Rightarrow> request \<Rightarrow> request option \<times> (string + response)" where
  \<comment> \<open>the \<^verbatim>\<open>try\<close> block of the second file, its \<^verbatim>\<open>allowedDomains\<close> taken as an argument\<close>
  "try_with P allowedDomains request =
     (case URL_new P (url request) of
        Inl e \<Rightarrow> (None, Inl e)
      | Inr reqUrl \<Rightarrow>
          (let encryptedId = searchParams_get reqUrl ''vid''
           in if encryptedId = None \<or> encryptedId = Some []
              then (None, Inr (error_response 400 [(''error'', ''Missing video ID'')]))
              else
                (case atob (the encryptedId) of
                   None \<Rightarrow> (None, Inr (error_response 400 [(''error'', ''Invalid video ID'')]))
                 | Some originalUrl \<Rightarrow>
                     if \<not> startsWith originalUrl ''http://'' \<and> \<not> startsWith originalUrl ''https://''
                     then (None, Inr (error_response 400 [(''error'', ''Invalid URL'')]))
                     else
                       (case URL_new P originalUrl of
                          Inl e \<Rightarrow> (None, Inl e)
                        | Inr urlObj \<Rightarrow>
                            (let isAllowed =
                                   list_ex (\<lambda>domain. includes_str (hostname urlObj) domain)
                                     allowedDomains
                             in if \<not> isAllowed \<and> length allowedDomains > 0
                                then (None,
                                      Inr (error_response 403 [(''error'', ''Unauthorized domain'')]))
                                else forward P request originalUrl)))))"

definition catch :: "request option \<times> (string + response) \<Rightarrow> request option \<times> response" where
  \<comment> \<open>the outer \<^verbatim>\<open>catch (error)\<close>: whatever the \<^verbatim>\<open>try\<close> block throws becomes the 500 response\<close>
  "catch r = (case r of (f, Inl e) \<Rightarrow> (f, server_error e) | (f, Inr resp) \<Rightarrow> (f, resp))"

definition handleRequest_with ::
  "platform \<Rightarrow> string list \<Rightarrow> request \<Rightarrow> request option \<times> response" where
  "handleRequest_with P allowedDomains request =
     (if http_method request = ''OPTIONS'' then (None, cors_preflight)
      else catch (try_with P allowedDomains request))"

definition handleRequest_2 :: "platform \<Rightarrow> request \<Rightarrow> request option \<times> response" where
  \<comment> \<open>\<^verbatim>\<open>handleRequest\<close> of the second file\<close>
  "handleRequest_2 P request = handleRequest_with P allowedDomains_2 request"

definition try_worker :: "platform \<Rightarrow> request \<Rightarrow> request option \<times> (string + response)" where
  \<comment> \<open>the \<^verbatim>\<open>try\<close> block of \<^verbatim>\<open>cloudflare_worder.js\<close>: the allowlist block is a comment\<close>
  "try_worker P request =
     (case URL_new P (url request) of
        Inl e \<Rightarrow> (None, Inl e)
      | Inr reqUrl \<Rightarrow>
          (let encryptedId = searchParams_get reqUrl ''vid''
           in if encryptedId = None \<or> encryptedId = Some []
              then (None, Inr (error_response 400 [(''error'', ''Missing video ID'')]))
              else
                (case atob (the encryptedId) of
                   None \<Rightarrow> (None, Inr (error_response 400 [(''error'', ''Invalid video ID'')]))
                 | Some originalUrl \<Rightarrow>
                     if \<not> startsWith originalUrl ''http://'' \<and> \<not> startsWith originalUrl ''https://''
                     then (None, Inr (error_response 400 [(''error'', ''Invalid URL'')]))
                     else forward P request originalUrl)))"

definition handleRequest :: "platform \<Rightarrow> request \<Rightarrow> request option \<times> response" where
  \<comment> \<open>\<^verbatim>\<open>handleRequest\<close> of \<^verbatim>\<open>cloudflare_worder.js\<close>\<close>
  "handleRequest P request =
     (if http_method request = ''OPTIONS'' then (None, cors_preflight)
      else catch (try_worker P request))"

subsection \<open>The token encoding\<close>

text \<open>
  Modelled from the spec: the encoder of tokens is not part of the worker (the client app
  produces them). The spec fixes the format: "\<^verbatim>\<open>vid\<close> is the standard Base64 text encoding of
  the UTF-8 origin URL". \<open>utf8_encode\<close> covers the code units a \<open>string\<close> holds (one byte
  below U+0080, two bytes from there to U+00FF); \<open>base64_encode\<close> is RFC 4648 with padding.
\<close>

definition base64_char :: "nat \<Rightarrow> char" where
  "base64_char n = base64_alphabet ! (n mod 64)"

fun sextets :: "nat list \<Rightarrow> nat list" where
  "sextets (a # b # c # r) =
     [a div 4, (a mod 4) * 16 + b div 16, (b mod 16) * 4 + c div 64, c mod 64] @ sextets r"
| "sextets [a, b] = [a div 4, (a mod 4) * 16 + b div 16, (b mod 16) * 4]"
| "sextets [a] = [a div 4, (a mod 4) * 16]"
| "sextets [] = []"

definition base64_encode :: "nat list \<Rightarrow> string" where
  \<comment> \<open>Modelled from the spec: standard Base64 of a byte sequence\<close>
  "base64_encode bs =
     map base64_char (sextets bs) @ replicate ((3 - length bs mod 3) mod 3) (CHR ''='')"

definition utf8_encode :: "string \<Rightarrow> nat list" where
  \<comment> \<open>Modelled from the spec: the UTF-8 bytes of a string\<close>
  "utf8_encode s =
     concat (map (\<lambda>c. let n = (of_char c :: nat)
                      in if n < 128 then [n] else [192 + n div 64, 128 + n mod 64]) s)"

definition token_encode :: "string \<Rightarrow> string" where
  \<comment> \<open>Modelled from the spec: the token of an origin URL\<close>
  "token_encode s = base64_encode (utf8_encode s)"

subsection \<open>A sample platform\<close>

text \<open>
  Concrete inputs need a concrete platform. \<open>sample_URL_new\<close> knows the worker's own URL
  \<^verbatim>\<open>https://proxy.example/\<close>, alone or with one \<^verbatim>\<open>vid\<close> parameter whose value is made of
  letters, digits, \<^verbatim>\<open>/\<close> and \<^verbatim>\<open>=\<close> (characters that the query parser leaves as they are), and
  five origin URLs; it rejects every other string, among them \<^verbatim>\<open>http://\<close>, which has no host.
  The Request constructor parses the same strings and has its own error text, which names
  the input. \<open>sample_fetch\<close> answers for four of the origins, once with the status 999, and
  rejects for the rest with a message that lists the requested URL.
\<close>

definition sample_URL_new :: "string \<Rightarrow> string + URL" where
  "sample_URL_new s =
     (if s = ''https://proxy.example/''
      then Inr \<lparr>href = s, hostname = ''proxy.example'', searchParams = []\<rparr>
      else if startsWith s ''https://proxy.example/?vid=''
              \<and> list_all
                    (\<lambda>c. c \<in> set ''ABCDEFGHIJKLMNOPQRSTUVWXYZabcdefghijklmnopqrstuvwxyz0123456789/='')
                    (drop 27 s)
      then Inr \<lparr>href = s, hostname = ''proxy.example'', searchParams = [(''vid'', drop 27 s)]\<rparr>
      else case map_of
             [(''https://storage.googleapis.com/v.mp4'', ''storage.googleapis.com''),
              (''https://example.com/v.mp4'', ''example.com''),
              (''https://cdn.example.com.evil.org/v.mp4'', ''cdn.example.com.evil.org''),
              (''https://loop.example.net/v.mp4'', ''loop.example.net''),
              (''https://commondatastorage.googleapis.com/v.mp4'',
               ''commondatastorage.googleapis.com'')] s of
             Some h \<Rightarrow> Inr \<lparr>href = s, hostname = h, searchParams = []\<rparr>
           | None \<Rightarrow> Inl ''Invalid URL string.'')"

definition sample_Request_parse :: "string \<Rightarrow> string + string" where
  "sample_Request_parse s =
     (case sample_URL_new s of
        Inl e \<Rightarrow> Inl (''Invalid URL: '' @ s)
      | Inr u \<Rightarrow> Inr (href u))"

definition sample_fetch :: "request \<Rightarrow> string + response" where
  "sample_fetch rq =
     (if url rq = ''https://storage.googleapis.com/v.mp4''
      then Inr \<lparr>headers = [''content-type'' \<mapsto> ''video/mp4'', ''content-length'' \<mapsto> ''100'',
                             ''content-range'' \<mapsto> ''bytes 0-99/1000'', ''server'' \<mapsto> ''UploadServer''],
               body = Some ''bytes'', status = 206\<rparr>
      else if url rq = ''https://example.com/v.mp4''
              \<or> url rq = ''https://cdn.example.com.evil.org/v.mp4''
      then Inr \<lparr>headers = Map.empty, body = Some ''data'', status = 200\<rparr>
      else if url rq = ''https://commondatastorage.googleapis.com/v.mp4''
      then Inr \<lparr>headers = Map.empty, body = Some ''denied'', status = 999\<rparr>
      else Inl (''Too many redirects.; urlList = '' @ url rq))"

definition sample_platform :: platform where
  "sample_platform =
     \<lparr>URL_new = sample_URL_new, Request_parse = sample_Request_parse,
      Request_guard = (\<lambda>_. None),
      Response_RangeError =
        ''Responses may only be constructed with status codes in the range 200 to 599, inclusive.'',
      Response_TypeError =
        ''Response with null body status (101, 204, 205, or 304) cannot have a body.'',
      fetch = sample_fetch\<rparr>"

definition sample_request :: "string \<Rightarrow> string \<Rightarrow> (string \<times> string) list \<Rightarrow> request" where
  \<comment> \<open>an incoming request without a body\<close>
  "sample_request m u hs = \<lparr>headers = Headers_new hs, body = None, http_method = m, url = u\<rparr>"

subsection \<open>The request handed to the origin\<close>

text \<open>
  The request that \<open>forward\<close> builds when the Request constructor parsed the origin URL to
  \<open>h\<close>, written out once for the statements below (\<open>forward_unfold\<close> proves that it is the
  one built).
\<close>

abbreviation outbound :: "request \<Rightarrow> string \<Rightarrow> request" where
  "outbound request h \<equiv>
     \<lparr>headers =
        [''user-agent'' \<mapsto> ''Mozilla/5.0 (Windows NT 10.0; Win64; x64) AppleWebKit/537.36'',
         ''accept'' \<mapsto> or_default (headers request ''accept'') ''*/*'',
         ''accept-language'' \<mapsto> ''en-US,en;q=0.9'',
         ''range'' \<mapsto> or_default (headers request ''range'') ''''],
      body = None, http_method = http_method request, url = h\<rparr>"

section \<open>Base64: decoding undoes encoding\<close>

lemma index_of_nth:
  "distinct xs \<Longrightarrow> n < length xs \<Longrightarrow> index_of (xs ! n) xs = Some n"
proof (induction xs arbitrary: n)
  case Nil
  then show ?case by simp
next
  case (Cons x xs)
  show ?case
  proof (cases n)
    case 0
    then show ?thesis by simp
  next
    case (Suc m)
    with Cons.prems have "xs ! m \<noteq> x" "m < length xs" "distinct xs" by auto
    with Cons.IH [of m] Suc show ?thesis by simp
  qed
qed

lemma distinct_base64_alphabet: "distinct base64_alphabet"
  by (simp add: base64_alphabet_def)

lemma length_base64_alphabet: "length base64_alphabet = 64"
  by (simp add: base64_alphabet_def)

lemma index_of_base64_char:
  "n < 64 \<Longrightarrow> index_of (base64_char n) base64_alphabet = Some n"
  by (simp add: base64_char_def index_of_nth distinct_base64_alphabet length_base64_alphabet)

lemma base64_char_in_alphabet: "base64_char n \<in> set base64_alphabet"
  by (simp add: base64_char_def length_base64_alphabet)

lemma alphabet_not_pad: "c \<in> set base64_alphabet \<Longrightarrow> c \<noteq> CHR ''=''"
  by (auto simp: base64_alphabet_def)

lemma alphabet_not_whitespace: "c \<in> set base64_alphabet \<Longrightarrow> \<not> is_ascii_whitespace c"
  by (auto simp: base64_alphabet_def is_ascii_whitespace_def)

lemma sextets_less:
  "\<forall>b\<in>set bs. b < 256 \<Longrightarrow> \<forall>s\<in>set (sextets bs). s < 64"
  by (induction bs rule: sextets.induct) auto

lemma length_sextets_mod:
  "length (sextets bs) mod 4 = (if length bs mod 3 = 0 then 0 else length bs mod 3 + 1)"
  by (induction bs rule: sextets.induct) auto

lemma decode_sextets_sextets:
  "\<forall>b\<in>set bs. b < 256 \<Longrightarrow> decode_sextets (sextets bs) = bs"
  by (induction bs rule: sextets.induct) auto

lemma those_index_of:
  "\<forall>s\<in>set ss. s < 64 \<Longrightarrow>
   those (map (\<lambda>c. index_of c base64_alphabet) (map base64_char ss)) = Some ss"
  by (induction ss) (simp_all add: index_of_base64_char)

lemma base64_char_not_whitespace: "\<not> is_ascii_whitespace (base64_char n)"
  by (rule alphabet_not_whitespace) (rule base64_char_in_alphabet)

lemma pad_not_whitespace: "\<not> is_ascii_whitespace (CHR ''='')"
  by (simp add: is_ascii_whitespace_def)

lemma filter_base64_encode:
  "filter (\<lambda>c. \<not> is_ascii_whitespace c) (base64_encode bs) = base64_encode bs"
  by (auto simp: base64_encode_def filter_id_conv base64_char_not_whitespace pad_not_whitespace)

lemma mod4_pad2: "(n::nat) mod 4 = 2 \<Longrightarrow> (n + 2) mod 4 = 0"
  by presburger

lemma mod4_pad1: "(n::nat) mod 4 = 3 \<Longrightarrow> (n + 1) mod 4 = 0"
  by presburger

lemma last_base64_chars:
  "ss \<noteq> [] \<Longrightarrow> last (map base64_char ss) \<noteq> CHR ''=''"
  by (simp add: last_map alphabet_not_pad base64_char_in_alphabet)

lemma strip_padding_base64_encode:
  "strip_padding (base64_encode bs) = map base64_char (sextets bs)"
proof -
  let ?u = "map base64_char (sextets bs)"
  have len: "length ?u mod 4 = (if length bs mod 3 = 0 then 0 else length bs mod 3 + 1)"
    by (simp add: length_sextets_mod)
  have lt: "length bs mod 3 < 3" by simp
  then consider "length bs mod 3 = 0" | "length bs mod 3 = 1" | "length bs mod 3 = 2"
    by linarith
  then show ?thesis
  proof cases
    case 1
    then have enc: "base64_encode bs = ?u" by (simp add: base64_encode_def)
    show ?thesis
    proof (cases "sextets bs = []")
      case True
      then show ?thesis by (simp add: enc strip_padding_def)
    next
      case False
      then show ?thesis using last_base64_chars [OF False] by (simp add: enc strip_padding_def)
    qed
  next
    case 2
    then have enc: "base64_encode bs = ?u @ ''==''" by (simp add: base64_encode_def numeral_2_eq_2)
    from 2 len have "length ?u mod 4 = 2" by simp
    then have "(length ?u + 2) mod 4 = 0" by (rule mod4_pad2)
    then show ?thesis by (simp add: enc strip_padding_def butlast_append)
  next
    case 3
    then have enc: "base64_encode bs = ?u @ ''=''" by (simp add: base64_encode_def)
    from 3 len have l3: "length ?u mod 4 = 3" by simp
    then have "(length ?u + 1) mod 4 = 0" by (rule mod4_pad1)
    moreover from l3 have ne: "sextets bs \<noteq> []" by auto
    ultimately show ?thesis using last_base64_chars [OF ne]
      by (simp add: enc strip_padding_def butlast_append)
  qed
qed

lemma atob_base64_encode:
  assumes "\<forall>b\<in>set bs. b < 256"
  shows "atob (base64_encode bs) = Some (map char_of bs)"
proof -
  have "length (map base64_char (sextets bs)) mod 4 \<noteq> 1"
    by (simp add: length_sextets_mod)
  then show ?thesis
    using those_index_of [OF sextets_less [OF assms]] decode_sextets_sextets [OF assms]
    by (simp add: atob_def filter_base64_encode strip_padding_base64_encode)
qed

lemma utf8_encode_ascii:
  "\<forall>c\<in>set s. (of_char c :: nat) < 128 \<Longrightarrow> utf8_encode s = map of_char s"
  by (induction s) (simp_all add: utf8_encode_def)

lemma atob_Nil: "atob [] = Some []"
  by (simp add: atob_def strip_padding_def)

section \<open>Strings, headers and the responses\<close>

lemma lower_names:
  "toLowerCase ''Content-Type'' = ''content-type''"
  "toLowerCase ''Accept-Ranges'' = ''accept-ranges''"
  "toLowerCase ''Access-Control-Allow-Origin'' = ''access-control-allow-origin''"
  "toLowerCase ''Access-Control-Allow-Methods'' = ''access-control-allow-methods''"
  "toLowerCase ''Access-Control-Allow-Headers'' = ''access-control-allow-headers''"
  "toLowerCase ''Cache-Control'' = ''cache-control''"
  "toLowerCase ''Content-Length'' = ''content-length''"
  "toLowerCase ''Content-Range'' = ''content-range''"
  "toLowerCase ''User-Agent'' = ''user-agent''"
  "toLowerCase ''Accept'' = ''accept''"
  "toLowerCase ''Accept-Language'' = ''accept-language''"
  "toLowerCase ''Range'' = ''range''"
  by (simp_all add: toLowerCase_def toLowerCase_char_def)

lemmas header_defs =
  Headers_new_def Headers_set_def Headers_get_def Headers_has_def lower_names

lemma has_simps:
  "Headers_has h ''Access-Control-Allow-Origin'' \<longleftrightarrow> h ''access-control-allow-origin'' \<noteq> None"
  "Headers_has h ''Access-Control-Allow-Methods'' \<longleftrightarrow> h ''access-control-allow-methods'' \<noteq> None"
  "Headers_has h ''Access-Control-Allow-Headers'' \<longleftrightarrow> h ''access-control-allow-headers'' \<noteq> None"
  "Headers_has h ''Content-Length'' \<longleftrightarrow> h ''content-length'' \<noteq> None"
  "Headers_has h ''Content-Range'' \<longleftrightarrow> h ''content-range'' \<noteq> None"
  "Headers_get h ''Content-Length'' = h ''content-length''"
  "Headers_get h ''Content-Range'' = h ''content-range''"
  "Headers_get h ''Accept'' = h ''accept''"
  "Headers_get h ''Range'' = h ''range''"
  by (simp_all add: Headers_has_def Headers_get_def lower_names)

lemma or_default_simps:
  "or_default None d = d"
  "or_default (Some []) d = d"
  "v \<noteq> [] \<Longrightarrow> or_default (Some v) d = v"
  by (simp_all add: or_default_def)

lemmas json_defs = JSON_stringify_def QuoteJSONString_def QuoteJSON_char_def

lemma json_bodies:
  \<open>JSON_stringify [(''error'', ''Missing video ID'')] = ''{"error":"Missing video ID"}''\<close>
  \<open>JSON_stringify [(''error'', ''Invalid video ID'')] = ''{"error":"Invalid video ID"}''\<close>
  \<open>JSON_stringify [(''error'', ''Invalid URL'')] = ''{"error":"Invalid URL"}''\<close>
  \<open>JSON_stringify [(''error'', ''Unauthorized domain'')] = ''{"error":"Unauthorized domain"}''\<close>
  \<open>JSON_stringify [(''error'', ''Server error''), (''message'', msg)]
     = ''{"error":"Server error","message":'' @ QuoteJSONString msg @ ''}''\<close>
  by (simp_all add: json_defs)

lemma startsWith_iff: "startsWith s p \<longleftrightarrow> (\<exists>q. s = p @ q)"
proof
  assume "startsWith s p"
  then have "s = p @ drop (length p) s"
    unfolding startsWith_def by (metis append_take_drop_id)
  then show "\<exists>q. s = p @ q" ..
next
  assume "\<exists>q. s = p @ q"
  then show "startsWith s p" by (auto simp: startsWith_def)
qed

lemma includes_str_iff: "includes_str s t \<longleftrightarrow> (\<exists>p q. s = p @ t @ q)"
proof (induction s)
  case Nil
  then show ?case by auto
next
  case (Cons c s)
  show ?case
  proof
    assume "includes_str (c # s) t"
    then consider "startsWith (c # s) t" | "includes_str s t" by auto
    then show "\<exists>p q. c # s = p @ t @ q"
    proof cases
      case 1
      then obtain q where "c # s = t @ q" by (auto simp: startsWith_iff)
      then have "c # s = [] @ t @ q" by simp
      then show ?thesis by blast
    next
      case 2
      with Cons.IH obtain p q where "s = p @ t @ q" by auto
      then have "c # s = (c # p) @ t @ q" by simp
      then show ?thesis by blast
    qed
  next
    assume "\<exists>p q. c # s = p @ t @ q"
    then obtain p q where pq: "c # s = p @ t @ q" by blast
    show "includes_str (c # s) t"
    proof (cases p)
      case Nil
      with pq have "startsWith (c # s) t" by (auto simp: startsWith_iff)
      then show ?thesis by simp
    next
      case (Cons a p')
      with pq have "s = p' @ t @ q" by simp
      with Cons.IH have "includes_str s t" by blast
      then show ?thesis by simp
    qed
  qed
qed

lemma list_ex_includes_str:
  "list_ex (includes_str h) ds \<longleftrightarrow> (\<exists>d\<in>set ds. \<exists>p q. h = p @ d @ q)"
  by (simp add: list_ex_iff includes_str_iff)

lemma error_response_sel:
  "status (error_response st obj) = st"
  "body (error_response st obj) = Some (JSON_stringify obj)"
  "headers (error_response st obj) = [''content-type'' \<mapsto> ''application/json'']"
  by (simp_all add: error_response_def Response_object_def header_defs)

lemma error_response_no_cors:
  "headers (error_response st obj) ''access-control-allow-origin'' = None"
  "headers (error_response st obj) ''access-control-allow-methods'' = None"
  "headers (error_response st obj) ''access-control-allow-headers'' = None"
  by (simp_all add: error_response_sel)

lemma server_error_sel:
  "status (server_error e) = 500"
  "headers (server_error e) = [''content-type'' \<mapsto> ''application/json'']"
  \<open>body (server_error e) = Some (''{"error":"Server error","message":'' @ QuoteJSONString e @ ''}'')\<close>
  by (simp_all add: server_error_def error_response_sel json_bodies)

lemma cors_preflight_sel:
  "status cors_preflight = 200"
  "body cors_preflight = None"
  "headers cors_preflight =
     [''access-control-allow-origin'' \<mapsto> ''*'',
      ''access-control-allow-methods'' \<mapsto> ''GET, HEAD, OPTIONS'',
      ''access-control-allow-headers'' \<mapsto> ''Range, Content-Type'']"
  by (simp_all add: cors_preflight_def Response_object_def header_defs)

lemma Response_new_literal:
  "Response_new P None None h = Inr (Response_object None None h)"
  "Response_new P b (Some 400) h = Inr (Response_object b (Some 400) h)"
  "Response_new P b (Some 403) h = Inr (Response_object b (Some 403) h)"
  "Response_new P b (Some 500) h = Inr (Response_object b (Some 500) h)"
  by (simp_all add: Response_new_def)

lemma literal_responses_constructed:
  "Response_new P None None
     (Headers_new
        [(''Access-Control-Allow-Origin'', ''*''),
         (''Access-Control-Allow-Methods'', ''GET, HEAD, OPTIONS''),
         (''Access-Control-Allow-Headers'', ''Range, Content-Type'')]) = Inr cors_preflight"
  "Response_new P (Some (JSON_stringify obj)) (Some 400)
     (Headers_new [(''Content-Type'', ''application/json'')]) = Inr (error_response 400 obj)"
  "Response_new P (Some (JSON_stringify obj)) (Some 403)
     (Headers_new [(''Content-Type'', ''application/json'')]) = Inr (error_response 403 obj)"
  "Response_new P
     (Some (JSON_stringify [(''error'', ''Server error''), (''message'', msg)])) (Some 500)
     (Headers_new [(''Content-Type'', ''application/json'')]) = Inr (server_error msg)"
  by (simp_all only: Response_new_literal cors_preflight_def error_response_def server_error_def)

lemma Response_new_cases:
  "Response_new P b (Some st) h =
     (if st < 200 \<or> 599 < st then Inl (Response_RangeError P)
      else if b \<noteq> None \<and> st \<in> {204, 205, 304} then Inl (Response_TypeError P)
      else Inr \<lparr>headers = h, body = b, status = st\<rparr>)"
  by (auto simp: Response_new_def Response_object_def)

lemma relay_Inr:
  assumes "relay P origin = Inr r"
  shows "status r = status origin"
    and "body r = body origin"
    and "headers r ''access-control-allow-origin'' = Some ''*''"
    and "headers r ''content-range'' = headers origin ''content-range''"
    and "headers r ''content-length'' = headers origin ''content-length''"
    and "200 \<le> status origin" and "status origin \<le> 599"
proof -
  from assms obtain h where r: "r = \<lparr>headers = h, body = body origin, status = status origin\<rparr>"
    and h: "h = (let responseHeaders = Headers_new
            [(''Content-Type'',
                or_default (Headers_get (headers origin) ''Content-Type'') ''video/mp4''),
             (''Accept-Ranges'',
                or_default (Headers_get (headers origin) ''Accept-Ranges'') ''bytes''),
             (''Access-Control-Allow-Origin'', ''*''),
             (''Access-Control-Allow-Methods'', ''GET, HEAD, OPTIONS''),
             (''Access-Control-Allow-Headers'', ''Range, Content-Type''),
             (''Cache-Control'', ''public, max-age=3600'')];
          responseHeaders =
            (if Headers_has (headers origin) ''Content-Length''
             then Headers_set responseHeaders ''Content-Length''
                    (the (Headers_get (headers origin) ''Content-Length''))
             else responseHeaders);
          responseHeaders =
            (if Headers_has (headers origin) ''Content-Range''
             then Headers_set responseHeaders ''Content-Range''
                    (the (Headers_get (headers origin) ''Content-Range''))
             else responseHeaders)
      in responseHeaders)"
    and range: "200 \<le> status origin" "status origin \<le> 599"
    by (auto simp: relay_def Response_new_cases Let_def split: if_splits)
  show "status r = status origin" "body r = body origin" by (simp_all add: r)
  show "200 \<le> status origin" "status origin \<le> 599" by (rule range)+
  show "headers r ''access-control-allow-origin'' = Some ''*''"
    by (simp add: r h Let_def header_defs)
  show "headers r ''content-range'' = headers origin ''content-range''"
    by (cases "headers origin ''content-range''") (simp_all add: r h Let_def header_defs)
  show "headers r ''content-length'' = headers origin ''content-length''"
    by (cases "headers origin ''content-length''") (simp_all add: r h Let_def header_defs)
qed

lemma relay_accepted:
  assumes "200 \<le> status origin" and "status origin \<le> 599"
    and "body origin = None \<or> status origin \<notin> {204, 205, 304}"
  shows "\<exists>r. relay P origin = Inr r"
  using assms by (auto simp: relay_def Response_new_cases Let_def)

lemma relay_out_of_range:
  assumes "status origin < 200 \<or> 599 < status origin"
  shows "relay P origin = Inl (Response_RangeError P)"
  using assms by (auto simp: relay_def Response_new_cases Let_def)

lemma relay_neq_error_response:
  assumes "relay P origin = Inr r"
  shows "r \<noteq> error_response st obj"
proof
  assume "r = error_response st obj"
  then have "headers r ''access-control-allow-origin''
      = headers (error_response st obj) ''access-control-allow-origin''"
    by simp
  then show False by (simp add: relay_Inr(3) [OF assms] error_response_no_cors)
qed

section \<open>The handler, stage by stage\<close>

lemma outbound_headers:
  "Headers_new [(''User-Agent'', ua), (''Accept'', a), (''Accept-Language'', l), (''Range'', r)]
   = [''user-agent'' \<mapsto> ua, ''accept'' \<mapsto> a, ''accept-language'' \<mapsto> l, ''range'' \<mapsto> r]"
  by (simp add: header_defs)

lemma forward_unfold:
  "Request_parse P s = Inl e \<Longrightarrow> forward P request s = (None, Inl e)"
  "Request_parse P s = Inr h \<Longrightarrow> Request_guard P (outbound request h) = Some e \<Longrightarrow>
     forward P request s = (None, Inl e)"
  "Request_parse P s = Inr h \<Longrightarrow> Request_guard P (outbound request h) = None \<Longrightarrow>
     forward P request s =
       (Some (outbound request h),
        case fetch P (outbound request h) of Inl e \<Rightarrow> Inl e | Inr origin \<Rightarrow> relay P origin)"
  by (simp_all add: forward_def Request_new_def Let_def outbound_headers Headers_get_def lower_names)

lemma catch_simps:
  "catch (f, Inl e) = (f, server_error e)"
  "catch (f, Inr r) = (f, r)"
  by (simp_all add: catch_def)

lemma forward_outcomes:
  "(\<exists>e. catch (forward P request s) = (None, server_error e))
   \<or> (\<exists>h e. catch (forward P request s) = (Some (outbound request h), server_error e)
          \<and> fetch P (outbound request h) = Inl e)
   \<or> (\<exists>h origin e. catch (forward P request s) = (Some (outbound request h), server_error e)
          \<and> fetch P (outbound request h) = Inr origin \<and> relay P origin = Inl e)
   \<or> (\<exists>h origin r. catch (forward P request s) = (Some (outbound request h), r)
          \<and> fetch P (outbound request h) = Inr origin \<and> relay P origin = Inr r)"
proof (cases "Request_parse P s")
  case (Inl e)
  then show ?thesis by (simp add: forward_unfold(1) catch_simps) blast
next
  case (Inr h)
  show ?thesis
  proof (cases "Request_guard P (outbound request h)")
    case (Some e)
    with Inr show ?thesis by (simp add: forward_unfold(2) catch_simps) blast
  next
    case None
    note f = forward_unfold(3) [OF Inr None]
    show ?thesis
    proof (cases "fetch P (outbound request h)")
      case (Inl e)
      then have "catch (forward P request s) = (Some (outbound request h), server_error e)"
        by (simp add: f catch_simps)
      with Inl show ?thesis by blast
    next
      case origin: (Inr origin)
      show ?thesis
      proof (cases "relay P origin")
        case (Inl e)
        with origin have "catch (forward P request s) = (Some (outbound request h), server_error e)"
          by (simp add: f catch_simps)
        with origin Inl show ?thesis by blast
      next
        case r: (Inr r)
        with origin have "catch (forward P request s) = (Some (outbound request h), r)"
          by (simp add: f catch_simps)
        with origin r show ?thesis by blast
      qed
    qed
  qed
qed

lemma forward_not_unauthorized:
  "snd (catch (forward P request s)) \<noteq> error_response 403 obj"
proof -
  have "server_error e \<noteq> error_response 403 obj" for e
  proof
    assume "server_error e = error_response 403 obj"
    then have "status (server_error e) = status (error_response 403 obj)" by simp
    then show False by (simp add: server_error_sel error_response_sel)
  qed
  with forward_outcomes [of P request s] show ?thesis
    by (auto simp: relay_neq_error_response)
qed

lemma try_with_unfold:
  "URL_new P (url request) = Inl e \<Longrightarrow> try_with P ds request = (None, Inl e)"
  "URL_new P (url request) = Inr u \<Longrightarrow> searchParams_get u ''vid'' = None \<Longrightarrow>
     try_with P ds request = (None, Inr (error_response 400 [(''error'', ''Missing video ID'')]))"
  "URL_new P (url request) = Inr u \<Longrightarrow> searchParams_get u ''vid'' = Some [] \<Longrightarrow>
     try_with P ds request = (None, Inr (error_response 400 [(''error'', ''Missing video ID'')]))"
  "URL_new P (url request) = Inr u \<Longrightarrow> searchParams_get u ''vid'' = Some v \<Longrightarrow> v \<noteq> [] \<Longrightarrow>
     atob v = None \<Longrightarrow>
     try_with P ds request = (None, Inr (error_response 400 [(''error'', ''Invalid video ID'')]))"
  "URL_new P (url request) = Inr u \<Longrightarrow> searchParams_get u ''vid'' = Some v \<Longrightarrow> v \<noteq> [] \<Longrightarrow>
     atob v = Some s \<Longrightarrow> \<not> startsWith s ''http://'' \<Longrightarrow> \<not> startsWith s ''https://'' \<Longrightarrow>
     try_with P ds request = (None, Inr (error_response 400 [(''error'', ''Invalid URL'')]))"
  "URL_new P (url request) = Inr u \<Longrightarrow> searchParams_get u ''vid'' = Some v \<Longrightarrow> v \<noteq> [] \<Longrightarrow>
     atob v = Some s \<Longrightarrow> startsWith s ''http://'' \<or> startsWith s ''https://'' \<Longrightarrow>
     URL_new P s = Inl e \<Longrightarrow>
     try_with P ds request = (None, Inl e)"
  "URL_new P (url request) = Inr u \<Longrightarrow> searchParams_get u ''vid'' = Some v \<Longrightarrow> v \<noteq> [] \<Longrightarrow>
     atob v = Some s \<Longrightarrow> startsWith s ''http://'' \<or> startsWith s ''https://'' \<Longrightarrow>
     URL_new P s = Inr urlObj \<Longrightarrow>
     try_with P ds request =
       (if \<not> list_ex (includes_str (hostname urlObj)) ds \<and> ds \<noteq> []
        then (None, Inr (error_response 403 [(''error'', ''Unauthorized domain'')]))
        else forward P request s)"
  by (auto simp add: try_with_def Let_def)

lemma try_worker_unfold:
  "URL_new P (url request) = Inl e \<Longrightarrow> try_worker P request = (None, Inl e)"
  "URL_new P (url request) = Inr u \<Longrightarrow> searchParams_get u ''vid'' = None \<Longrightarrow>
     try_worker P request = (None, Inr (error_response 400 [(''error'', ''Missing video ID'')]))"
  "URL_new P (url request) = Inr u \<Longrightarrow> searchParams_get u ''vid'' = Some [] \<Longrightarrow>
     try_worker P request = (None, Inr (error_response 400 [(''error'', ''Missing video ID'')]))"
  "URL_new P (url request) = Inr u \<Longrightarrow> searchParams_get u ''vid'' = Some v \<Longrightarrow> v \<noteq> [] \<Longrightarrow>
     atob v = None \<Longrightarrow>
     try_worker P request = (None, Inr (error_response 400 [(''error'', ''Invalid video ID'')]))"
  "URL_new P (url request) = Inr u \<Longrightarrow> searchParams_get u ''vid'' = Some v \<Longrightarrow> v \<noteq> [] \<Longrightarrow>
     atob v = Some s \<Longrightarrow> \<not> startsWith s ''http://'' \<Longrightarrow> \<not> startsWith s ''https://'' \<Longrightarrow>
     try_worker P request = (None, Inr (error_response 400 [(''error'', ''Invalid URL'')]))"
  "URL_new P (url request) = Inr u \<Longrightarrow> searchParams_get u ''vid'' = Some v \<Longrightarrow> v \<noteq> [] \<Longrightarrow>
     atob v = Some s \<Longrightarrow> startsWith s ''http://'' \<or> startsWith s ''https://'' \<Longrightarrow>
     try_worker P request = forward P request s"
  by (auto simp add: try_worker_def Let_def)

lemma handleRequest_with_catch:
  "http_method request \<noteq> ''OPTIONS'' \<Longrightarrow>
   handleRequest_with P ds request = catch (try_with P ds request)"
  by (simp add: handleRequest_with_def)

lemma handleRequest_catch:
  "http_method request \<noteq> ''OPTIONS'' \<Longrightarrow>
   handleRequest P request = catch (try_worker P request)"
  by (simp add: handleRequest_def)

lemma handleRequest_with_decoded:
  assumes "http_method request \<noteq> ''OPTIONS''"
    and "URL_new P (url request) = Inr u"
    and "searchParams_get u ''vid'' = Some v" and "v \<noteq> []"
    and "atob v = Some s"
    and "startsWith s ''http://'' \<or> startsWith s ''https://''"
    and "URL_new P s = Inr urlObj"
  shows "handleRequest_with P ds request =
     (if \<not> list_ex (includes_str (hostname urlObj)) ds \<and> ds \<noteq> []
      then (None, error_response 403 [(''error'', ''Unauthorized domain'')])
      else catch (forward P request s))"
  by (simp add: handleRequest_with_catch [OF assms(1)] try_with_unfold(7) [OF assms(2-7)]
      catch_simps)

lemma handleRequest_decoded:
  assumes "http_method request \<noteq> ''OPTIONS''"
    and "URL_new P (url request) = Inr u"
    and "searchParams_get u ''vid'' = Some v" and "v \<noteq> []"
    and "atob v = Some s"
    and "startsWith s ''http://'' \<or> startsWith s ''https://''"
  shows "handleRequest P request = catch (forward P request s)"
  by (simp add: handleRequest_catch [OF assms(1)] try_worker_unfold(6) [OF assms(2-6)])

lemma handler_cases:
  assumes "http_method request \<noteq> ''OPTIONS''"
    and "result = handleRequest P request \<or> result = handleRequest_with P ds request"
  shows "(\<exists>e. result = (None, server_error e))
   \<or> result = (None, error_response 400 [(''error'', ''Missing video ID'')])
   \<or> result = (None, error_response 400 [(''error'', ''Invalid video ID'')])
   \<or> result = (None, error_response 400 [(''error'', ''Invalid URL'')])
   \<or> (ds \<noteq> [] \<and> result = (None, error_response 403 [(''error'', ''Unauthorized domain'')]))
   \<or> (\<exists>h e. result = (Some (outbound request h), server_error e)
          \<and> fetch P (outbound request h) = Inl e)
   \<or> (\<exists>h origin e. result = (Some (outbound request h), server_error e)
          \<and> fetch P (outbound request h) = Inr origin \<and> relay P origin = Inl e)
   \<or> (\<exists>h origin r. result = (Some (outbound request h), r)
          \<and> fetch P (outbound request h) = Inr origin \<and> relay P origin = Inr r)"
proof -
  note hw = handleRequest_with_catch [OF assms(1), of P ds]
  note h1 = handleRequest_catch [OF assms(1), of P]
  show ?thesis
  proof (cases "URL_new P (url request)")
    case (Inl e)
    with assms(2) have "result = (None, server_error e)"
      by (auto simp: hw h1 try_with_unfold(1) try_worker_unfold(1) catch_simps)
    then show ?thesis by blast
  next
    case u: (Inr u)
    show ?thesis
    proof (cases "searchParams_get u ''vid''")
      case None
      with u assms(2) show ?thesis
        by (auto simp: hw h1 try_with_unfold(2) try_worker_unfold(2) catch_simps)
    next
      case v: (Some v)
      show ?thesis
      proof (cases "v = []")
        case True
        with u v assms(2) show ?thesis
          by (auto simp: hw h1 try_with_unfold(3) try_worker_unfold(3) catch_simps)
      next
        case ne: False
        show ?thesis
        proof (cases "atob v")
          case None
          with u v ne assms(2) show ?thesis
            by (auto simp: hw h1 try_with_unfold(4) try_worker_unfold(4) catch_simps)
        next
          case s: (Some s)
          show ?thesis
          proof (cases "startsWith s ''http://'' \<or> startsWith s ''https://''")
            case False
            with u v ne s assms(2) show ?thesis
              by (auto simp: hw h1 try_with_unfold(5) try_worker_unfold(5) catch_simps)
          next
            case pre: True
            have fwd: ?thesis if "result = catch (forward P request s)"
              using forward_outcomes [of P request s] unfolding that [symmetric] by blast
            from assms(2) show ?thesis
            proof
              assume "result = handleRequest P request"
              then have "result = catch (forward P request s)"
                by (simp add: handleRequest_decoded [OF assms(1) u v ne s pre])
              then show ?thesis by (rule fwd)
            next
              assume r: "result = handleRequest_with P ds request"
              show ?thesis
              proof (cases "URL_new P s")
                case (Inl e)
                with u v ne s pre have "result = (None, server_error e)"
                  by (simp add: r hw try_with_unfold(6) catch_simps)
                then show ?thesis by blast
              next
                case o: (Inr urlObj)
                note t = handleRequest_with_decoded [OF assms(1) u v ne s pre o, of ds]
                show ?thesis
                proof (cases "\<not> list_ex (includes_str (hostname urlObj)) ds \<and> ds \<noteq> []")
                  case True
                  then show ?thesis by (simp add: r t)
                next
                  case False
                  then have "result = catch (forward P request s)"
                    by (simp only: r t if_False)
                  then show ?thesis by (rule fwd)
                qed
              qed
            qed
          qed
        qed
      qed
    qed
  qed
qed

lemma handler_fetched:
  assumes "result = handleRequest P request \<or> result = handleRequest_with P ds request"
    and "fst result = Some rq"
  shows "\<exists>h. rq = outbound request h
     \<and> snd result =
         (case fetch P rq of
            Inl e \<Rightarrow> server_error e
          | Inr origin \<Rightarrow> (case relay P origin of Inl e \<Rightarrow> server_error e | Inr r \<Rightarrow> r))"
proof (cases "http_method request = ''OPTIONS''")
  case True
  with assms show ?thesis by (auto simp: handleRequest_with_def handleRequest_def)
next
  case False
  from handler_cases [OF False assms(1)] assms(2) show ?thesis
    by (elim disjE exE conjE) auto
qed

lemma never_unauthorized:
  assumes "result = handleRequest P request \<or> result = handleRequest_with P [] request"
  shows "snd result \<noteq> error_response 403 [(''error'', ''Unauthorized domain'')]"
proof (cases "http_method request = ''OPTIONS''")
  case True
  have "cors_preflight \<noteq> error_response 403 [(''error'', ''Unauthorized domain'')]"
  proof
    assume "cors_preflight = error_response 403 [(''error'', ''Unauthorized domain'')]"
    then have "status cors_preflight
        = status (error_response 403 [(''error'', ''Unauthorized domain'')])"
      by simp
    then show False by (simp add: cors_preflight_sel error_response_sel)
  qed
  with True assms show ?thesis by (auto simp: handleRequest_def handleRequest_with_def)
next
  case False
  have st: "r \<noteq> error_response 403 [(''error'', ''Unauthorized domain'')]"
    if "status r \<noteq> 403" for r
    using that by (auto simp: error_response_sel)
  from handler_cases [OF False assms] show ?thesis
    by (elim disjE exE conjE)
       (simp_all add: st server_error_sel error_response_sel relay_neq_error_response)
qed

section \<open>The sample platform, evaluated\<close>

lemma sample_simps:
  "URL_new sample_platform = sample_URL_new"
  "Request_parse sample_platform = sample_Request_parse"
  "Request_guard sample_platform = (\<lambda>_. None)"
  "Response_RangeError sample_platform =
     ''Responses may only be constructed with status codes in the range 200 to 599, inclusive.''"
  "fetch sample_platform = sample_fetch"
  "http_method (sample_request m u hs) = m"
  "url (sample_request m u hs) = u"
  "headers (sample_request m u hs) = Headers_new hs"
  "body (sample_request m u hs) = None"
  by (simp_all add: sample_platform_def sample_request_def)

lemma sample_request_url:
  "sample_URL_new ''https://proxy.example/''
     = Inr \<lparr>href = ''https://proxy.example/'', hostname = ''proxy.example'', searchParams = []\<rparr>"
  "sample_URL_new
     ''https://proxy.example/?vid=a''
     = Inr \<lparr>href = ''https://proxy.example/?vid=a'',
            hostname = ''proxy.example'',
            searchParams = [(''vid'', ''a'')]\<rparr>"
  "sample_URL_new
     ''https://proxy.example/?vid=aHR0cDovLw==''
     = Inr \<lparr>href = ''https://proxy.example/?vid=aHR0cDovLw=='',
            hostname = ''proxy.example'',
            searchParams = [(''vid'', ''aHR0cDovLw=='')]\<rparr>"
  "sample_URL_new
     ''https://proxy.example/?vid=ZnRwOi8veA==''
     = Inr \<lparr>href = ''https://proxy.example/?vid=ZnRwOi8veA=='',
            hostname = ''proxy.example'',
            searchParams = [(''vid'', ''ZnRwOi8veA=='')]\<rparr>"
  "sample_URL_new
     ''https://proxy.example/?vid=aHR0cHM6Ly9zdG9yYWdlLmdvb2dsZWFwaXMuY29tL3YubXA0''
     = Inr \<lparr>href = ''https://proxy.example/?vid=aHR0cHM6Ly9zdG9yYWdlLmdvb2dsZWFwaXMuY29tL3YubXA0'',
            hostname = ''proxy.example'',
            searchParams = [(''vid'', ''aHR0cHM6Ly9zdG9yYWdlLmdvb2dsZWFwaXMuY29tL3YubXA0'')]\<rparr>"
  "sample_URL_new
     ''https://proxy.example/?vid=aHR0cHM6Ly9leGFtcGxlLmNvbS92Lm1wNA==''
     = Inr \<lparr>href = ''https://proxy.example/?vid=aHR0cHM6Ly9leGFtcGxlLmNvbS92Lm1wNA=='',
            hostname = ''proxy.example'',
            searchParams = [(''vid'', ''aHR0cHM6Ly9leGFtcGxlLmNvbS92Lm1wNA=='')]\<rparr>"
  "sample_URL_new
     ''https://proxy.example/?vid=aHR0cHM6Ly9jZG4uZXhhbXBsZS5jb20uZXZpbC5vcmcvdi5tcDQ=''
     = Inr \<lparr>href = ''https://proxy.example/?vid=aHR0cHM6Ly9jZG4uZXhhbXBsZS5jb20uZXZpbC5vcmcvdi5tcDQ='',
            hostname = ''proxy.example'',
            searchParams = [(''vid'', ''aHR0cHM6Ly9jZG4uZXhhbXBsZS5jb20uZXZpbC5vcmcvdi5tcDQ='')]\<rparr>"
  "sample_URL_new
     ''https://proxy.example/?vid=aHR0cHM6Ly9sb29wLmV4YW1wbGUubmV0L3YubXA0''
     = Inr \<lparr>href = ''https://proxy.example/?vid=aHR0cHM6Ly9sb29wLmV4YW1wbGUubmV0L3YubXA0'',
            hostname = ''proxy.example'',
            searchParams = [(''vid'', ''aHR0cHM6Ly9sb29wLmV4YW1wbGUubmV0L3YubXA0'')]\<rparr>"
  "sample_URL_new
     ''https://proxy.example/?vid=aHR0cHM6Ly9jb21tb25kYXRhc3RvcmFnZS5nb29nbGVhcGlzLmNvbS92Lm1wNA==''
     = Inr \<lparr>href = ''https://proxy.example/?vid=aHR0cHM6Ly9jb21tb25kYXRhc3RvcmFnZS5nb29nbGVhcGlzLmNvbS92Lm1wNA=='',
            hostname = ''proxy.example'',
            searchParams = [(''vid'', ''aHR0cHM6Ly9jb21tb25kYXRhc3RvcmFnZS5nb29nbGVhcGlzLmNvbS92Lm1wNA=='')]\<rparr>"
  by (simp_all add: sample_URL_new_def startsWith_def)

lemma sample_origin_url:
  "sample_URL_new ''https://storage.googleapis.com/v.mp4''
     = Inr \<lparr>href = ''https://storage.googleapis.com/v.mp4'', hostname = ''storage.googleapis.com'', searchParams = []\<rparr>"
  "sample_URL_new ''https://example.com/v.mp4''
     = Inr \<lparr>href = ''https://example.com/v.mp4'', hostname = ''example.com'', searchParams = []\<rparr>"
  "sample_URL_new ''https://cdn.example.com.evil.org/v.mp4''
     = Inr \<lparr>href = ''https://cdn.example.com.evil.org/v.mp4'', hostname = ''cdn.example.com.evil.org'', searchParams = []\<rparr>"
  "sample_URL_new ''https://loop.example.net/v.mp4''
     = Inr \<lparr>href = ''https://loop.example.net/v.mp4'', hostname = ''loop.example.net'', searchParams = []\<rparr>"
  "sample_URL_new ''https://commondatastorage.googleapis.com/v.mp4''
     = Inr \<lparr>href = ''https://commondatastorage.googleapis.com/v.mp4'', hostname = ''commondatastorage.googleapis.com'', searchParams = []\<rparr>"
  "sample_URL_new ''http://'' = Inl ''Invalid URL string.''"
  by (simp_all add: sample_URL_new_def startsWith_def)

lemma sample_Request_parse_simps:
  "sample_Request_parse ''https://storage.googleapis.com/v.mp4'' = Inr ''https://storage.googleapis.com/v.mp4''"
  "sample_Request_parse ''https://example.com/v.mp4'' = Inr ''https://example.com/v.mp4''"
  "sample_Request_parse ''https://cdn.example.com.evil.org/v.mp4'' = Inr ''https://cdn.example.com.evil.org/v.mp4''"
  "sample_Request_parse ''https://loop.example.net/v.mp4'' = Inr ''https://loop.example.net/v.mp4''"
  "sample_Request_parse ''https://commondatastorage.googleapis.com/v.mp4'' = Inr ''https://commondatastorage.googleapis.com/v.mp4''"
  "sample_Request_parse ''http://'' = Inl ''Invalid URL: http://''"
  by (simp_all add: sample_Request_parse_def sample_origin_url)

lemma sample_atob:
  "atob ''a'' = None"
  "atob ''aHR0cDovLw=='' = Some ''http://''"
  "atob ''ZnRwOi8veA=='' = Some ''ftp://x''"
  "atob ''aHR0cHM6Ly9zdG9yYWdlLmdvb2dsZWFwaXMuY29tL3YubXA0''
     = Some ''https://storage.googleapis.com/v.mp4''"
  "atob ''aHR0cHM6Ly9leGFtcGxlLmNvbS92Lm1wNA==''
     = Some ''https://example.com/v.mp4''"
  "atob ''aHR0cHM6Ly9jZG4uZXhhbXBsZS5jb20uZXZpbC5vcmcvdi5tcDQ=''
     = Some ''https://cdn.example.com.evil.org/v.mp4''"
  "atob ''aHR0cHM6Ly9sb29wLmV4YW1wbGUubmV0L3YubXA0''
     = Some ''https://loop.example.net/v.mp4''"
  "atob ''aHR0cHM6Ly9jb21tb25kYXRhc3RvcmFnZS5nb29nbGVhcGlzLmNvbS92Lm1wNA==''
     = Some ''https://commondatastorage.googleapis.com/v.mp4''"
  by code_simp+

lemma sample_forward:
  assumes "sample_Request_parse s = Inr h"
  shows "catch (forward sample_platform request s) =
     (Some (outbound request h),
      case sample_fetch (outbound request h) of
        Inl e \<Rightarrow> server_error e
      | Inr origin \<Rightarrow>
          (case relay sample_platform origin of Inl e \<Rightarrow> server_error e | Inr r \<Rightarrow> r))"
proof -
  have "Request_parse sample_platform s = Inr h" using assms by (simp add: sample_simps)
  moreover have "Request_guard sample_platform (outbound request h) = None"
    by (simp add: sample_simps)
  ultimately show ?thesis
    by (simp add: forward_unfold(3) sample_simps catch_simps split: sum.splits)
qed

lemma sample_missing:
  assumes "m \<noteq> ''OPTIONS''"
  shows "handleRequest sample_platform (sample_request m ''https://proxy.example/'' hs)
       = (None, error_response 400 [(''error'', ''Missing video ID'')])"
    and "handleRequest_with sample_platform ds (sample_request m ''https://proxy.example/'' hs)
       = (None, error_response 400 [(''error'', ''Missing video ID'')])"
proof -
  let ?r = "sample_request m ''https://proxy.example/'' hs"
  have a: "http_method ?r \<noteq> ''OPTIONS''" using assms by (simp add: sample_simps)
  have b: "URL_new sample_platform (url ?r)
      = Inr \<lparr>href = ''https://proxy.example/'', hostname = ''proxy.example'', searchParams = []\<rparr>"
    by (simp add: sample_simps sample_request_url)
  have c: "searchParams_get
      \<lparr>href = ''https://proxy.example/'', hostname = ''proxy.example'', searchParams = []\<rparr> ''vid''
      = None"
    by (simp add: searchParams_get_def)
  show "handleRequest sample_platform ?r
       = (None, error_response 400 [(''error'', ''Missing video ID'')])"
    by (simp add: handleRequest_catch [OF a] try_worker_unfold(2) [OF b c] catch_simps)
  show "handleRequest_with sample_platform ds ?r
       = (None, error_response 400 [(''error'', ''Missing video ID'')])"
    by (simp add: handleRequest_with_catch [OF a] try_with_unfold(2) [OF b c] catch_simps)
qed

lemma sample_decoded:
  assumes "m \<noteq> ''OPTIONS''"
    and "sample_URL_new req_url = Inr u"
    and "searchParams_get u ''vid'' = Some v" and "v \<noteq> []"
    and "atob v = Some s"
    and "startsWith s ''http://'' \<or> startsWith s ''https://''"
    and "sample_Request_parse s = Inr h"
  shows "handleRequest sample_platform (sample_request m req_url hs) =
       (Some (outbound (sample_request m req_url hs) h),
        case sample_fetch (outbound (sample_request m req_url hs) h) of
          Inl e \<Rightarrow> server_error e
        | Inr origin \<Rightarrow>
            (case relay sample_platform origin of Inl e \<Rightarrow> server_error e | Inr r \<Rightarrow> r))"
    and "sample_URL_new s = Inr urlObj \<Longrightarrow>
     handleRequest_with sample_platform ds (sample_request m req_url hs) =
     (if \<not> list_ex (includes_str (hostname urlObj)) ds \<and> ds \<noteq> []
      then (None, error_response 403 [(''error'', ''Unauthorized domain'')])
      else (Some (outbound (sample_request m req_url hs) h),
            case sample_fetch (outbound (sample_request m req_url hs) h) of
              Inl e \<Rightarrow> server_error e
            | Inr origin \<Rightarrow>
                (case relay sample_platform origin of Inl e \<Rightarrow> server_error e | Inr r \<Rightarrow> r)))"
proof -
  let ?r = "sample_request m req_url hs"
  have a: "http_method ?r \<noteq> ''OPTIONS''" using assms(1) by (simp add: sample_simps)
  have b: "URL_new sample_platform (url ?r) = Inr u"
    using assms(2) by (simp add: sample_simps)
  show "handleRequest sample_platform ?r =
       (Some (outbound ?r h),
        case sample_fetch (outbound ?r h) of
          Inl e \<Rightarrow> server_error e
        | Inr origin \<Rightarrow>
            (case relay sample_platform origin of Inl e \<Rightarrow> server_error e | Inr r \<Rightarrow> r))"
    by (simp only: handleRequest_decoded [OF a b assms(3-6)] sample_forward [OF assms(7)])
  show "handleRequest_with sample_platform ds ?r =
     (if \<not> list_ex (includes_str (hostname urlObj)) ds \<and> ds \<noteq> []
      then (None, error_response 403 [(''error'', ''Unauthorized domain'')])
      else (Some (outbound ?r h),
            case sample_fetch (outbound ?r h) of
              Inl e \<Rightarrow> server_error e
            | Inr origin \<Rightarrow>
                (case relay sample_platform origin of Inl e \<Rightarrow> server_error e | Inr r \<Rightarrow> r)))"
    if "sample_URL_new s = Inr urlObj"
  proof -
    have c: "URL_new sample_platform s = Inr urlObj" using that by (simp add: sample_simps)
    show ?thesis
      by (simp only: handleRequest_with_decoded [OF a b assms(3-6) c]
          sample_forward [OF assms(7)])
  qed
qed

lemma sample_storage:
  "handleRequest_2 sample_platform
     (sample_request ''GET''
        ''https://proxy.example/?vid=aHR0cHM6Ly9zdG9yYWdlLmdvb2dsZWFwaXMuY29tL3YubXA0''
        [(''Range'', ''bytes=0-1023'')])
   = (Some (outbound
        (sample_request ''GET''
           ''https://proxy.example/?vid=aHR0cHM6Ly9zdG9yYWdlLmdvb2dsZWFwaXMuY29tL3YubXA0''
           [(''Range'', ''bytes=0-1023'')])
        ''https://storage.googleapis.com/v.mp4''),
      case relay sample_platform
             \<lparr>headers = [''content-type'' \<mapsto> ''video/mp4'', ''content-length'' \<mapsto> ''100'',
                         ''content-range'' \<mapsto> ''bytes 0-99/1000'', ''server'' \<mapsto> ''UploadServer''],
              body = Some ''bytes'', status = 206\<rparr> of
        Inl e \<Rightarrow> server_error e | Inr r \<Rightarrow> r)"
  unfolding handleRequest_2_def
  by (subst sample_decoded(2) [OF _ sample_request_url(5) _ _ sample_atob(4) _
        sample_Request_parse_simps(1) sample_origin_url(1)])
     (simp_all add: searchParams_get_def startsWith_def allowedDomains_2_def sample_fetch_def)

lemma sample_evil:
  "handleRequest_with sample_platform [''example.com'']
     (sample_request ''GET''
        ''https://proxy.example/?vid=aHR0cHM6Ly9jZG4uZXhhbXBsZS5jb20uZXZpbC5vcmcvdi5tcDQ='' [])
   = (Some (outbound
        (sample_request ''GET''
           ''https://proxy.example/?vid=aHR0cHM6Ly9jZG4uZXhhbXBsZS5jb20uZXZpbC5vcmcvdi5tcDQ='' [])
        ''https://cdn.example.com.evil.org/v.mp4''),
      case relay sample_platform \<lparr>headers = Map.empty, body = Some ''data'', status = 200\<rparr> of
        Inl e \<Rightarrow> server_error e | Inr r \<Rightarrow> r)"
  by (subst sample_decoded(2) [OF _ sample_request_url(7) _ _ sample_atob(6) _
        sample_Request_parse_simps(3) sample_origin_url(3)])
     (simp_all add: searchParams_get_def startsWith_def sample_fetch_def)

lemma sample_example:
  "handleRequest sample_platform
     (sample_request ''GET'' ''https://proxy.example/?vid=aHR0cHM6Ly9leGFtcGxlLmNvbS92Lm1wNA=='' [])
   = (Some (outbound
        (sample_request ''GET''
           ''https://proxy.example/?vid=aHR0cHM6Ly9leGFtcGxlLmNvbS92Lm1wNA=='' [])
        ''https://example.com/v.mp4''),
      case relay sample_platform \<lparr>headers = Map.empty, body = Some ''data'', status = 200\<rparr> of
        Inl e \<Rightarrow> server_error e | Inr r \<Rightarrow> r)"
  by (subst sample_decoded(1) [OF _ sample_request_url(6) _ _ sample_atob(5) _
        sample_Request_parse_simps(2)])
     (simp_all add: searchParams_get_def startsWith_def sample_fetch_def)

section \<open>C1: the URL validator\<close>

text \<open>
  C1 (amended). For a request that is not \<^verbatim>\<open>OPTIONS\<close> and whose \<^verbatim>\<open>vid\<close> is present, not empty,
  and decodes to a string \<open>s\<close> (\<open>u\<close> is the parsed URL of the request itself): when \<open>s\<close>
  begins with neither \<^verbatim>\<open>http://\<close> nor \<^verbatim>\<open>https://\<close> the response is 400 with body
  \<^verbatim>\<open>{"error":"Invalid URL"}\<close>, in both files. Neither file has a response of its own for a
  string that has such a prefix and does not parse. In the second file \<^verbatim>\<open>new URL\<close> throws, in
  \<^verbatim>\<open>cloudflare_worder.js\<close>, which does not call it, \<^verbatim>\<open>new Request\<close> throws; either error
  reaches the outer \<^verbatim>\<open>catch\<close>, and the response is the 500 \<^verbatim>\<open>Server error\<close> response carrying
  the message of the error thrown.
\<close>

theorem invalid_url_responses:
  assumes "http_method request \<noteq> ''OPTIONS''"
    and "URL_new P (url request) = Inr u"
    and "searchParams_get u ''vid'' = Some v" and "v \<noteq> []"
    and "atob v = Some s"
  shows \<open>(\<not> startsWith s ''http://'' \<and> \<not> startsWith s ''https://'' \<longrightarrow>
            handleRequest P request = (None, error_response 400 [(''error'', ''Invalid URL'')])
          \<and> handleRequest_with P ds request
              = (None, error_response 400 [(''error'', ''Invalid URL'')]))
     \<and> (\<forall>e. (startsWith s ''http://'' \<or> startsWith s ''https://'') \<and> URL_new P s = Inl e \<longrightarrow>
            handleRequest_with P ds request = (None, server_error e))
     \<and> (\<forall>e. (startsWith s ''http://'' \<or> startsWith s ''https://'') \<and> Request_parse P s = Inl e
          \<longrightarrow> handleRequest P request = (None, server_error e))
     \<and> status (error_response 400 [(''error'', ''Invalid URL'')]) = 400
     \<and> body (error_response 400 [(''error'', ''Invalid URL'')]) = Some ''{"error":"Invalid URL"}''
     \<and> (\<forall>e. status (server_error e) = 500
            \<and> body (server_error e)
                = Some (''{"error":"Server error","message":'' @ QuoteJSONString e @ ''}''))\<close>
proof -
  note hw = handleRequest_with_catch [OF assms(1), of P ds]
  note h1 = handleRequest_catch [OF assms(1), of P]
  have "handleRequest P request = (None, error_response 400 [(''error'', ''Invalid URL'')])"
    "handleRequest_with P ds request = (None, error_response 400 [(''error'', ''Invalid URL'')])"
    if "\<not> startsWith s ''http://''" "\<not> startsWith s ''https://''"
    using that
    by (simp_all add: hw h1 try_with_unfold(5) [OF assms(2-5)]
        try_worker_unfold(5) [OF assms(2-5)] catch_simps)
  moreover have "handleRequest_with P ds request = (None, server_error e)"
    if "startsWith s ''http://'' \<or> startsWith s ''https://''" "URL_new P s = Inl e" for e
    using that by (simp add: hw try_with_unfold(6) [OF assms(2-5)] catch_simps)
  moreover have "handleRequest P request = (None, server_error e)"
    if "startsWith s ''http://'' \<or> startsWith s ''https://''" "Request_parse P s = Inl e" for e
    using that
    by (simp add: handleRequest_decoded [OF assms(1-5)] forward_unfold(1) catch_simps)
  ultimately show ?thesis
    by (simp add: error_response_sel json_bodies server_error_def)
qed

theorem invalid_url_responses_witness:
  \<open>handleRequest sample_platform
      (sample_request ''GET'' ''https://proxy.example/?vid=ZnRwOi8veA=='' [])
     = (None, error_response 400 [(''error'', ''Invalid URL'')])
   \<and> handleRequest_2 sample_platform
      (sample_request ''GET'' ''https://proxy.example/?vid=aHR0cDovLw=='' [])
     = (None, server_error ''Invalid URL string.'')
   \<and> handleRequest sample_platform
      (sample_request ''GET'' ''https://proxy.example/?vid=aHR0cDovLw=='' [])
     = (None, server_error ''Invalid URL: http://'')
   \<and> body (error_response 400 [(''error'', ''Invalid URL'')]) = Some ''{"error":"Invalid URL"}''\<close>
proof -
  let ?r1 = "sample_request ''GET'' ''https://proxy.example/?vid=ZnRwOi8veA=='' []"
  let ?r2 = "sample_request ''GET'' ''https://proxy.example/?vid=aHR0cDovLw=='' []"
  have m: "http_method ?r1 \<noteq> ''OPTIONS''" "http_method ?r2 \<noteq> ''OPTIONS''"
    by (simp_all add: sample_simps)
  have u1: "URL_new sample_platform (url ?r1)
      = Inr \<lparr>href = ''https://proxy.example/?vid=ZnRwOi8veA=='', hostname = ''proxy.example'',
            searchParams = [(''vid'', ''ZnRwOi8veA=='')]\<rparr>"
    by (simp add: sample_simps sample_request_url)
  have u2: "URL_new sample_platform (url ?r2)
      = Inr \<lparr>href = ''https://proxy.example/?vid=aHR0cDovLw=='', hostname = ''proxy.example'',
            searchParams = [(''vid'', ''aHR0cDovLw=='')]\<rparr>"
    by (simp add: sample_simps sample_request_url)
  have v1: "searchParams_get \<lparr>href = ''https://proxy.example/?vid=ZnRwOi8veA=='',
      hostname = ''proxy.example'', searchParams = [(''vid'', ''ZnRwOi8veA=='')]\<rparr> ''vid''
      = Some ''ZnRwOi8veA==''"
    by (simp add: searchParams_get_def)
  have v2: "searchParams_get \<lparr>href = ''https://proxy.example/?vid=aHR0cDovLw=='',
      hostname = ''proxy.example'', searchParams = [(''vid'', ''aHR0cDovLw=='')]\<rparr> ''vid''
      = Some ''aHR0cDovLw==''"
    by (simp add: searchParams_get_def)
  have ne: "''ZnRwOi8veA=='' \<noteq> []" "''aHR0cDovLw=='' \<noteq> []" by simp_all
  from invalid_url_responses [OF m(1) u1 v1 ne(1) sample_atob(3), of allowedDomains_2]
       invalid_url_responses [OF m(2) u2 v2 ne(2) sample_atob(2), of allowedDomains_2]
  show ?thesis
    by (simp add: startsWith_def sample_simps sample_origin_url sample_Request_parse_simps
        handleRequest_2_def)
qed

text \<open>
  C1 as stated fails on \<^verbatim>\<open>http://\<close>: it has the prefix, the parsers reject it (no host), and
  both files answer 500, not 400.
\<close>

theorem unparseable_url_counterexample:
  \<open>atob ''aHR0cDovLw=='' = Some ''http://''
   \<and> startsWith ''http://'' ''http://''
   \<and> URL_new sample_platform ''http://'' = Inl ''Invalid URL string.''
   \<and> Request_parse sample_platform ''http://'' = Inl ''Invalid URL: http://''
   \<and> status (snd (handleRequest_2 sample_platform
        (sample_request ''GET'' ''https://proxy.example/?vid=aHR0cDovLw=='' []))) = 500
   \<and> body (snd (handleRequest_2 sample_platform
        (sample_request ''GET'' ''https://proxy.example/?vid=aHR0cDovLw=='' [])))
       = Some ''{"error":"Server error","message":"Invalid URL string."}''
   \<and> status (snd (handleRequest sample_platform
        (sample_request ''GET'' ''https://proxy.example/?vid=aHR0cDovLw=='' []))) = 500
   \<and> body (snd (handleRequest sample_platform
        (sample_request ''GET'' ''https://proxy.example/?vid=aHR0cDovLw=='' [])))
       = Some ''{"error":"Server error","message":"Invalid URL: http://"}''\<close>
  by code_simp

section \<open>C2: the allowlist of each file\<close>

text \<open>
  C2 (amended). In \<^verbatim>\<open>cloudflare_worder.js\<close> the allowlist block is a comment: the handler never
  answers 403 \<^verbatim>\<open>Unauthorized domain\<close>, and a decoded URL that passes the prefix check is handed
  to \<^verbatim>\<open>fetch\<close> whenever the Request constructor parses and accepts it. The second file's
  code would not answer 403 either if its list were empty, but the block is active and the
  list has two entries: there a decoded URL that passes the prefix check and parses is
  answered 403 exactly when its hostname contains neither
  \<^verbatim>\<open>commondatastorage.googleapis.com\<close> nor \<^verbatim>\<open>storage.googleapis.com\<close>.
\<close>

theorem shipped_allowlist:
  \<open>snd (handleRequest P request) \<noteq> error_response 403 [(''error'', ''Unauthorized domain'')]
   \<and> snd (handleRequest_with P [] request)
       \<noteq> error_response 403 [(''error'', ''Unauthorized domain'')]
   \<and> (http_method request \<noteq> ''OPTIONS'' \<and> URL_new P (url request) = Inr u
        \<and> searchParams_get u ''vid'' = Some v \<and> v \<noteq> [] \<and> atob v = Some s
        \<and> (startsWith s ''http://'' \<or> startsWith s ''https://'')
      \<longrightarrow> (Request_parse P s = Inr h \<and> Request_guard P (outbound request h) = None
             \<longrightarrow> fst (handleRequest P request) = Some (outbound request h))
          \<and> (URL_new P s = Inr urlObj
             \<longrightarrow> (handleRequest_2 P request
                    = (None, error_response 403 [(''error'', ''Unauthorized domain'')])
                  \<longleftrightarrow> \<not> includes_str (hostname urlObj) ''commondatastorage.googleapis.com''
                      \<and> \<not> includes_str (hostname urlObj) ''storage.googleapis.com'')))\<close>
proof -
  have c: "(Request_parse P s = Inr h \<and> Request_guard P (outbound request h) = None
             \<longrightarrow> fst (handleRequest P request) = Some (outbound request h))
          \<and> (URL_new P s = Inr urlObj
             \<longrightarrow> (handleRequest_2 P request
                    = (None, error_response 403 [(''error'', ''Unauthorized domain'')])
                  \<longleftrightarrow> \<not> includes_str (hostname urlObj) ''commondatastorage.googleapis.com''
                      \<and> \<not> includes_str (hostname urlObj) ''storage.googleapis.com''))"
    if r: "http_method request \<noteq> ''OPTIONS''" "URL_new P (url request) = Inr u"
      "searchParams_get u ''vid'' = Some v" "v \<noteq> []" "atob v = Some s"
      "startsWith s ''http://'' \<or> startsWith s ''https://''"
  proof -
    have "fst (handleRequest P request) = Some (outbound request h)"
      if "Request_parse P s = Inr h" "Request_guard P (outbound request h) = None"
      using forward_unfold(3) [OF that]
      by (simp add: handleRequest_decoded [OF r] catch_def split: sum.splits)
    moreover have "handleRequest_2 P request
                = (None, error_response 403 [(''error'', ''Unauthorized domain'')])
              \<longleftrightarrow> \<not> includes_str (hostname urlObj) ''commondatastorage.googleapis.com''
                  \<and> \<not> includes_str (hostname urlObj) ''storage.googleapis.com''"
      if o: "URL_new P s = Inr urlObj"
      using forward_not_unauthorized [of P request s "[(''error'', ''Unauthorized domain'')]"]
      by (auto simp: handleRequest_2_def handleRequest_with_decoded [OF r o]
          allowedDomains_2_def)
    ultimately show ?thesis by simp
  qed
  from c never_unauthorized [of "handleRequest P request" P request]
    never_unauthorized [of "handleRequest_with P [] request" P request]
  show ?thesis by blast
qed

theorem shipped_allowlist_witness:
  "map_option url (fst (handleRequest sample_platform
      (sample_request ''GET'' ''https://proxy.example/?vid=aHR0cHM6Ly9leGFtcGxlLmNvbS92Lm1wNA=='' [])))
     = Some ''https://example.com/v.mp4''
   \<and> handleRequest_2 sample_platform
      (sample_request ''GET'' ''https://proxy.example/?vid=aHR0cHM6Ly9leGFtcGxlLmNvbS92Lm1wNA=='' [])
     = (None, error_response 403 [(''error'', ''Unauthorized domain'')])
   \<and> snd (handleRequest sample_platform
      (sample_request ''GET'' ''https://proxy.example/?vid=aHR0cHM6Ly9leGFtcGxlLmNvbS92Lm1wNA=='' []))
     \<noteq> error_response 403 [(''error'', ''Unauthorized domain'')]"
proof -
  let ?r = "sample_request ''GET''
      ''https://proxy.example/?vid=aHR0cHM6Ly9leGFtcGxlLmNvbS92Lm1wNA=='' []"
  let ?u = "\<lparr>href = ''https://proxy.example/?vid=aHR0cHM6Ly9leGFtcGxlLmNvbS92Lm1wNA=='',
            hostname = ''proxy.example'',
            searchParams = [(''vid'', ''aHR0cHM6Ly9leGFtcGxlLmNvbS92Lm1wNA=='')]\<rparr>"
  let ?o = "\<lparr>href = ''https://example.com/v.mp4'', hostname = ''example.com'',
            searchParams = []\<rparr>"
  have reach: "http_method ?r \<noteq> ''OPTIONS''" "URL_new sample_platform (url ?r) = Inr ?u"
    "searchParams_get ?u ''vid'' = Some ''aHR0cHM6Ly9leGFtcGxlLmNvbS92Lm1wNA==''"
    "''aHR0cHM6Ly9leGFtcGxlLmNvbS92Lm1wNA=='' \<noteq> []"
    "startsWith ''https://example.com/v.mp4'' ''http://''
     \<or> startsWith ''https://example.com/v.mp4'' ''https://''"
    "URL_new sample_platform ''https://example.com/v.mp4'' = Inr ?o"
    "Request_parse sample_platform ''https://example.com/v.mp4'' = Inr ''https://example.com/v.mp4''"
    "Request_guard sample_platform (outbound ?r ''https://example.com/v.mp4'') = None"
    "\<not> includes_str (hostname ?o) ''commondatastorage.googleapis.com''"
    "\<not> includes_str (hostname ?o) ''storage.googleapis.com''"
    by (simp_all add: sample_simps sample_request_url sample_origin_url
        sample_Request_parse_simps searchParams_get_def startsWith_def)
  from shipped_allowlist [of sample_platform ?r ?u "''aHR0cHM6Ly9leGFtcGxlLmNvbS92Lm1wNA==''"
      "''https://example.com/v.mp4''" "''https://example.com/v.mp4''" ?o] reach sample_atob(5)
  show ?thesis by simp
qed

text \<open>
  C2 as stated fails on the second file: its list is not empty, and the decoded URL
  \<^verbatim>\<open>https://example.com/v.mp4\<close>, which passes the prefix check and parses, is answered 403
  without a fetch.
\<close>

theorem shipped_allowlist_counterexample:
  \<open>atob ''aHR0cHM6Ly9leGFtcGxlLmNvbS92Lm1wNA=='' = Some ''https://example.com/v.mp4''
   \<and> startsWith ''https://example.com/v.mp4'' ''https://''
   \<and> URL_new sample_platform ''https://example.com/v.mp4''
       = Inr \<lparr>href = ''https://example.com/v.mp4'', hostname = ''example.com'',
              searchParams = []\<rparr>
   \<and> allowedDomains_2 \<noteq> []
   \<and> status (snd (handleRequest_2 sample_platform
        (sample_request ''GET''
           ''https://proxy.example/?vid=aHR0cHM6Ly9leGFtcGxlLmNvbS92Lm1wNA=='' []))) = 403
   \<and> body (snd (handleRequest_2 sample_platform
        (sample_request ''GET''
           ''https://proxy.example/?vid=aHR0cHM6Ly9leGFtcGxlLmNvbS92Lm1wNA=='' [])))
       = Some ''{"error":"Unauthorized domain"}''
   \<and> map_option url (fst (handleRequest_2 sample_platform
        (sample_request ''GET''
           ''https://proxy.example/?vid=aHR0cHM6Ly9leGFtcGxlLmNvbS92Lm1wNA=='' []))) = None\<close>
  by code_simp

section \<open>C3: the origin URL in responses\<close>

text \<open>
  C3. The header of \<^verbatim>\<open>cloudflare_worder.js\<close> promises "Original URL never exposed to client".
  The outer \<^verbatim>\<open>catch\<close> copies the message of whatever was thrown into the 500 response. On
  the sample platform \<^verbatim>\<open>fetch\<close> rejects for \<^verbatim>\<open>https://loop.example.net/v.mp4\<close> with a message
  that lists the requested URL, and the decoded origin URL is in the body of the response.
\<close>

theorem origin_url_echoed:
  \<open>atob ''aHR0cHM6Ly9sb29wLmV4YW1wbGUubmV0L3YubXA0'' = Some ''https://loop.example.net/v.mp4''
   \<and> map_option url (fst (handleRequest sample_platform
        (sample_request ''GET''
           ''https://proxy.example/?vid=aHR0cHM6Ly9sb29wLmV4YW1wbGUubmV0L3YubXA0'' [])))
       = Some ''https://loop.example.net/v.mp4''
   \<and> status (snd (handleRequest sample_platform
        (sample_request ''GET''
           ''https://proxy.example/?vid=aHR0cHM6Ly9sb29wLmV4YW1wbGUubmV0L3YubXA0'' []))) = 500
   \<and> body (snd (handleRequest sample_platform
        (sample_request ''GET''
           ''https://proxy.example/?vid=aHR0cHM6Ly9sb29wLmV4YW1wbGUubmV0L3YubXA0'' [])))
       = Some ''{"error":"Server error","message":"Too many redirects.; urlList = https://loop.example.net/v.mp4"}''
   \<and> includes_str
        ''{"error":"Server error","message":"Too many redirects.; urlList = https://loop.example.net/v.mp4"}''
        ''https://loop.example.net/v.mp4''\<close>
  by code_simp

section \<open>C4: the allowlist matches substrings\<close>

text \<open>
  C4. With the allowlist block active (the second file) and a non-empty list \<open>ds\<close>, a request
  that gets as far as the allowlist check is answered 403 with body
  \<^verbatim>\<open>{"error":"Unauthorized domain"}\<close> exactly when the parsed hostname contains no entry of
  \<open>ds\<close> as a contiguous substring. The theorem after it evaluates the spec's example: with the list
  \<^verbatim>\<open>["example.com"]\<close> the hostname \<^verbatim>\<open>cdn.example.com.evil.org\<close> is allowed.
\<close>

theorem allowlist_substring_match:
  assumes "http_method request \<noteq> ''OPTIONS''"
    and "URL_new P (url request) = Inr u"
    and "searchParams_get u ''vid'' = Some v" and "v \<noteq> []"
    and "atob v = Some s"
    and "startsWith s ''http://'' \<or> startsWith s ''https://''"
    and "URL_new P s = Inr urlObj"
    and "ds \<noteq> []"
  shows \<open>(handleRequest_with P ds request
            = (None, error_response 403 [(''error'', ''Unauthorized domain'')])
          \<longleftrightarrow> \<not> list_ex (includes_str (hostname urlObj)) ds)
     \<and> (snd (handleRequest_with P ds request)
            = error_response 403 [(''error'', ''Unauthorized domain'')]
          \<longleftrightarrow> \<not> list_ex (includes_str (hostname urlObj)) ds)
     \<and> (list_ex (includes_str (hostname urlObj)) ds
          \<longleftrightarrow> (\<exists>d\<in>set ds. \<exists>p q. hostname urlObj = p @ d @ q))
     \<and> status (error_response 403 [(''error'', ''Unauthorized domain'')]) = 403
     \<and> body (error_response 403 [(''error'', ''Unauthorized domain'')])
         = Some ''{"error":"Unauthorized domain"}''\<close>
proof -
  note d = handleRequest_with_decoded [OF assms(1-7), of ds]
  have no: "snd (handleRequest_with P ds request)
      \<noteq> error_response 403 [(''error'', ''Unauthorized domain'')]"
    if "list_ex (includes_str (hostname urlObj)) ds"
    using that forward_not_unauthorized [of P request s] by (simp add: d)
  have yes: "handleRequest_with P ds request
      = (None, error_response 403 [(''error'', ''Unauthorized domain'')])"
    if "\<not> list_ex (includes_str (hostname urlObj)) ds"
    using that assms(8) by (simp add: d)
  from no yes have
    "handleRequest_with P ds request
       = (None, error_response 403 [(''error'', ''Unauthorized domain'')])
     \<longleftrightarrow> \<not> list_ex (includes_str (hostname urlObj)) ds"
    "snd (handleRequest_with P ds request)
       = error_response 403 [(''error'', ''Unauthorized domain'')]
     \<longleftrightarrow> \<not> list_ex (includes_str (hostname urlObj)) ds"
    by auto
  then show ?thesis
    by (simp add: list_ex_includes_str error_response_sel json_bodies)
qed

theorem allowlist_substring_match_witness:
  "includes_str ''cdn.example.com.evil.org'' ''example.com''
   \<and> handleRequest_with sample_platform [''example.com'']
        (sample_request ''GET''
           ''https://proxy.example/?vid=aHR0cHM6Ly9jZG4uZXhhbXBsZS5jb20uZXZpbC5vcmcvdi5tcDQ='' [])
       \<noteq> (None, error_response 403 [(''error'', ''Unauthorized domain'')])
   \<and> status (snd (handleRequest_with sample_platform [''example.com'']
        (sample_request ''GET''
           ''https://proxy.example/?vid=aHR0cHM6Ly9jZG4uZXhhbXBsZS5jb20uZXZpbC5vcmcvdi5tcDQ='' [])))
       = 200
   \<and> handleRequest_with sample_platform [''example.com'']
        (sample_request ''GET''
           ''https://proxy.example/?vid=aHR0cHM6Ly9zdG9yYWdlLmdvb2dsZWFwaXMuY29tL3YubXA0'' [])
       = (None, error_response 403 [(''error'', ''Unauthorized domain'')])"
proof -
  let ?evil = "sample_request ''GET''
     ''https://proxy.example/?vid=aHR0cHM6Ly9jZG4uZXhhbXBsZS5jb20uZXZpbC5vcmcvdi5tcDQ='' []"
  let ?storage = "sample_request ''GET''
     ''https://proxy.example/?vid=aHR0cHM6Ly9zdG9yYWdlLmdvb2dsZWFwaXMuY29tL3YubXA0'' []"
  let ?u1 = "\<lparr>href = ''https://proxy.example/?vid=aHR0cHM6Ly9jZG4uZXhhbXBsZS5jb20uZXZpbC5vcmcvdi5tcDQ='',
            hostname = ''proxy.example'',
            searchParams = [(''vid'', ''aHR0cHM6Ly9jZG4uZXhhbXBsZS5jb20uZXZpbC5vcmcvdi5tcDQ='')]\<rparr>"
  let ?u2 = "\<lparr>href = ''https://proxy.example/?vid=aHR0cHM6Ly9zdG9yYWdlLmdvb2dsZWFwaXMuY29tL3YubXA0'',
            hostname = ''proxy.example'',
            searchParams = [(''vid'', ''aHR0cHM6Ly9zdG9yYWdlLmdvb2dsZWFwaXMuY29tL3YubXA0'')]\<rparr>"
  let ?o1 = "\<lparr>href = ''https://cdn.example.com.evil.org/v.mp4'',
            hostname = ''cdn.example.com.evil.org'', searchParams = []\<rparr>"
  let ?o2 = "\<lparr>href = ''https://storage.googleapis.com/v.mp4'',
            hostname = ''storage.googleapis.com'', searchParams = []\<rparr>"
  have m: "http_method ?evil \<noteq> ''OPTIONS''" "http_method ?storage \<noteq> ''OPTIONS''"
    by (simp_all add: sample_simps)
  have u: "URL_new sample_platform (url ?evil) = Inr ?u1"
    "URL_new sample_platform (url ?storage) = Inr ?u2"
    by (simp_all add: sample_simps sample_request_url)
  have v: "searchParams_get ?u1 ''vid''
      = Some ''aHR0cHM6Ly9jZG4uZXhhbXBsZS5jb20uZXZpbC5vcmcvdi5tcDQ=''"
    "searchParams_get ?u2 ''vid'' = Some ''aHR0cHM6Ly9zdG9yYWdlLmdvb2dsZWFwaXMuY29tL3YubXA0''"
    by (simp_all add: searchParams_get_def)
  have ne: "''aHR0cHM6Ly9jZG4uZXhhbXBsZS5jb20uZXZpbC5vcmcvdi5tcDQ='' \<noteq> []"
    "''aHR0cHM6Ly9zdG9yYWdlLmdvb2dsZWFwaXMuY29tL3YubXA0'' \<noteq> []"
    by simp_all
  have pre: "startsWith ''https://cdn.example.com.evil.org/v.mp4'' ''http://''
      \<or> startsWith ''https://cdn.example.com.evil.org/v.mp4'' ''https://''"
    "startsWith ''https://storage.googleapis.com/v.mp4'' ''http://''
      \<or> startsWith ''https://storage.googleapis.com/v.mp4'' ''https://''"
    by (simp_all add: startsWith_def)
  have o: "URL_new sample_platform ''https://cdn.example.com.evil.org/v.mp4'' = Inr ?o1"
    "URL_new sample_platform ''https://storage.googleapis.com/v.mp4'' = Inr ?o2"
    by (simp_all add: sample_simps sample_origin_url)
  have l: "[''example.com''] \<noteq> []" by simp
  have inc: "includes_str ''cdn.example.com.evil.org'' ''example.com''"
    "\<not> includes_str ''storage.googleapis.com'' ''example.com''"
    by (simp_all add: startsWith_def)
  then have ex: "list_ex (includes_str (hostname ?o1)) [''example.com'']"
    "\<not> list_ex (includes_str (hostname ?o2)) [''example.com'']"
    by simp_all
  note t1 = allowlist_substring_match [OF m(1) u(1) v(1) ne(1) sample_atob(6) pre(1) o(1) l]
  note t2 = allowlist_substring_match [OF m(2) u(2) v(2) ne(2) sample_atob(4) pre(2) o(2) l]
  from t1 ex(1) have a: "handleRequest_with sample_platform [''example.com''] ?evil
       \<noteq> (None, error_response 403 [(''error'', ''Unauthorized domain'')])"
    by blast
  from t2 ex(2) have b: "handleRequest_with sample_platform [''example.com''] ?storage
       = (None, error_response 403 [(''error'', ''Unauthorized domain'')])"
    by blast
  obtain r where r: "relay sample_platform
      \<lparr>headers = Map.empty, body = Some ''data'', status = 200\<rparr> = Inr r"
    using relay_accepted [of "\<lparr>headers = Map.empty, body = Some ''data'', status = 200\<rparr>"
        sample_platform]
    by auto
  have "status r = 200" using relay_Inr(1) [OF r] by simp
  then have c: "status (snd (handleRequest_with sample_platform [''example.com''] ?evil)) = 200"
    by (simp add: sample_evil r)
  from inc(1) a b c show ?thesis by (simp only: simp_thms)
qed

section \<open>C5: the request to the origin\<close>

text \<open>
  C5 (amended). Whenever the handler hands a request to \<^verbatim>\<open>fetch\<close>, in both files: its method is
  the incoming request's method, whatever that is (the handler does not restrict it to
  \<^verbatim>\<open>GET\<close> or \<^verbatim>\<open>HEAD\<close>); it has no body; and it has exactly four headers: the fixed
  \<^verbatim>\<open>User-Agent\<close>; \<^verbatim>\<open>Accept\<close>, the incoming one, or \<^verbatim>\<open>*/*\<close> when that is absent or empty; the
  fixed \<^verbatim>\<open>Accept-Language\<close>; and \<^verbatim>\<open>Range\<close>, the incoming one, or empty when that is absent. No
  other incoming header is forwarded.
\<close>

theorem outbound_request_shape:
  assumes "result = handleRequest P request \<or> result = handleRequest_with P ds request"
    and "fst result = Some rq"
  shows "http_method rq = http_method request
     \<and> body rq = None
     \<and> headers rq =
         [''user-agent'' \<mapsto> ''Mozilla/5.0 (Windows NT 10.0; Win64; x64) AppleWebKit/537.36'',
          ''accept'' \<mapsto> or_default (Headers_get (headers request) ''Accept'') ''*/*'',
          ''accept-language'' \<mapsto> ''en-US,en;q=0.9'',
          ''range'' \<mapsto> or_default (Headers_get (headers request) ''Range'') '''']
     \<and> dom (headers rq) = {''user-agent'', ''accept'', ''accept-language'', ''range''}
     \<and> (Headers_get (headers request) ''Accept'' = None
          \<longrightarrow> Headers_get (headers rq) ''Accept'' = Some ''*/*'')
     \<and> (\<forall>a. Headers_get (headers request) ''Accept'' = Some a \<and> a \<noteq> []
          \<longrightarrow> Headers_get (headers rq) ''Accept'' = Some a)
     \<and> (Headers_get (headers request) ''Range'' = None
          \<longrightarrow> Headers_get (headers rq) ''Range'' = Some '''')
     \<and> (\<forall>r. Headers_get (headers request) ''Range'' = Some r
          \<longrightarrow> Headers_get (headers rq) ''Range'' = Some r)"
proof -
  from handler_fetched [OF assms]
  obtain h where rq: "rq = outbound request h" by blast
  have dom: "dom (headers rq) = {''user-agent'', ''accept'', ''accept-language'', ''range''}"
    unfolding rq by auto
  have range: "Headers_get (headers rq) ''Range'' = Some r"
    if "Headers_get (headers request) ''Range'' = Some r" for r
    using that unfolding rq by (cases "r = []") (simp_all add: has_simps or_default_simps)
  show ?thesis
    using dom range unfolding rq by (simp add: has_simps or_default_simps)
qed

theorem outbound_request_shape_witness:
  "map_option http_method (fst (handleRequest_2 sample_platform
      (sample_request ''GET''
         ''https://proxy.example/?vid=aHR0cHM6Ly9zdG9yYWdlLmdvb2dsZWFwaXMuY29tL3YubXA0''
         [(''Range'', ''bytes=0-1023'')]))) = Some ''GET''
   \<and> map_option (\<lambda>rq. Headers_get (headers rq) ''Range'') (fst (handleRequest_2 sample_platform
      (sample_request ''GET''
         ''https://proxy.example/?vid=aHR0cHM6Ly9zdG9yYWdlLmdvb2dsZWFwaXMuY29tL3YubXA0''
         [(''Range'', ''bytes=0-1023'')]))) = Some (Some ''bytes=0-1023'')
   \<and> map_option (\<lambda>rq. Headers_get (headers rq) ''Accept'') (fst (handleRequest_2 sample_platform
      (sample_request ''GET''
         ''https://proxy.example/?vid=aHR0cHM6Ly9zdG9yYWdlLmdvb2dsZWFwaXMuY29tL3YubXA0''
         [(''Range'', ''bytes=0-1023'')]))) = Some (Some ''*/*'')"
proof -
  let ?r = "sample_request ''GET''
         ''https://proxy.example/?vid=aHR0cHM6Ly9zdG9yYWdlLmdvb2dsZWFwaXMuY29tL3YubXA0''
         [(''Range'', ''bytes=0-1023'')]"
  let ?rq = "outbound ?r ''https://storage.googleapis.com/v.mp4''"
  have a: "handleRequest_2 sample_platform ?r = handleRequest sample_platform ?r
      \<or> handleRequest_2 sample_platform ?r = handleRequest_with sample_platform allowedDomains_2 ?r"
    by (simp add: handleRequest_2_def)
  have b: "fst (handleRequest_2 sample_platform ?r) = Some ?rq"
    by (simp add: sample_storage)
  have h: "Headers_get (headers ?r) ''Range'' = Some ''bytes=0-1023''"
    "Headers_get (headers ?r) ''Accept'' = None"
    by (simp_all add: sample_simps header_defs)
  from outbound_request_shape [OF a b] h show ?thesis
    by (simp add: b sample_simps has_simps or_default_def header_defs)
qed

text \<open>
  C5 as stated fails on a \<^verbatim>\<open>POST\<close> request: the request handed to \<^verbatim>\<open>fetch\<close> is a \<^verbatim>\<open>POST\<close>
  request, neither \<^verbatim>\<open>GET\<close> nor \<^verbatim>\<open>HEAD\<close>.
\<close>

theorem outbound_method_counterexample:
  "atob ''aHR0cHM6Ly9leGFtcGxlLmNvbS92Lm1wNA=='' = Some ''https://example.com/v.mp4''
   \<and> map_option http_method (fst (handleRequest sample_platform
        (sample_request ''POST'' ''https://proxy.example/?vid=aHR0cHM6Ly9leGFtcGxlLmNvbS92Lm1wNA==''
           []))) = Some ''POST''
   \<and> map_option url (fst (handleRequest sample_platform
        (sample_request ''POST'' ''https://proxy.example/?vid=aHR0cHM6Ly9leGFtcGxlLmNvbS92Lm1wNA==''
           []))) = Some ''https://example.com/v.mp4''
   \<and> ''POST'' \<noteq> ''GET'' \<and> ''POST'' \<noteq> ''HEAD'' \<and> ''POST'' \<noteq> ''OPTIONS''"
  by code_simp

section \<open>C6: the relay\<close>

text \<open>
  C6 (amended). When the handler handed a request to \<^verbatim>\<open>fetch\<close> and \<^verbatim>\<open>fetch\<close> returned the
  response \<open>origin\<close>, in both files: if the origin's status is in 200..599, and its body is
  null when the status is 204, 205 or 304, then the proxy response has the origin's status,
  its \<^verbatim>\<open>Content-Range\<close> is the origin's (the same value when present, absent when absent),
  and it has a \<^verbatim>\<open>Content-Length\<close> exactly when the origin has one, with the origin's value.
  For any other origin response the Response constructor throws inside the \<^verbatim>\<open>try\<close> block,
  and the proxy response is the 500 \<^verbatim>\<open>Server error\<close> response with the constructor's message.
\<close>

theorem relay_preserves_origin:
  assumes "result = handleRequest P request \<or> result = handleRequest_with P ds request"
    and "fst result = Some rq"
    and "fetch P rq = Inr origin"
  shows "(200 \<le> status origin \<and> status origin \<le> 599
          \<and> (body origin = None \<or> status origin \<notin> {204, 205, 304})
        \<longrightarrow> status (snd result) = status origin
            \<and> Headers_get (headers (snd result)) ''Content-Range''
                = Headers_get (headers origin) ''Content-Range''
            \<and> (Headers_has (headers (snd result)) ''Content-Length''
                \<longleftrightarrow> Headers_has (headers origin) ''Content-Length'')
            \<and> Headers_get (headers (snd result)) ''Content-Length''
                = Headers_get (headers origin) ''Content-Length'')
     \<and> (status origin < 200 \<or> 599 < status origin
        \<longrightarrow> snd result = server_error (Response_RangeError P))
     \<and> (200 \<le> status origin \<and> status origin \<le> 599
          \<and> body origin \<noteq> None \<and> status origin \<in> {204, 205, 304}
        \<longrightarrow> snd result = server_error (Response_TypeError P))"
proof -
  from handler_fetched [OF assms(1,2)] assms(3)
  have res: "snd result = (case relay P origin of Inl e \<Rightarrow> server_error e | Inr r \<Rightarrow> r)"
    by auto
  have ok: "status (snd result) = status origin
            \<and> Headers_get (headers (snd result)) ''Content-Range''
                = Headers_get (headers origin) ''Content-Range''
            \<and> (Headers_has (headers (snd result)) ''Content-Length''
                \<longleftrightarrow> Headers_has (headers origin) ''Content-Length'')
            \<and> Headers_get (headers (snd result)) ''Content-Length''
                = Headers_get (headers origin) ''Content-Length''"
    if "200 \<le> status origin" "status origin \<le> 599"
      "body origin = None \<or> status origin \<notin> {204, 205, 304}"
  proof -
    from relay_accepted [OF that, of P] obtain r where r: "relay P origin = Inr r" ..
    then have "snd result = r" by (simp add: res)
    then show ?thesis
      by (simp add: has_simps relay_Inr(1,4,5) [OF r])
  qed
  have range: "snd result = server_error (Response_RangeError P)"
    if "status origin < 200 \<or> 599 < status origin"
    by (simp add: res relay_out_of_range [OF that])
  have null: "snd result = server_error (Response_TypeError P)"
    if "200 \<le> status origin" "status origin \<le> 599"
      "body origin \<noteq> None" "status origin \<in> {204, 205, 304}"
    using that by (auto simp: res relay_def Response_new_cases Let_def)
  from ok range null show ?thesis by blast
qed

theorem relay_preserves_origin_witness:
  "status (snd (handleRequest_2 sample_platform
      (sample_request ''GET''
         ''https://proxy.example/?vid=aHR0cHM6Ly9zdG9yYWdlLmdvb2dsZWFwaXMuY29tL3YubXA0''
         [(''Range'', ''bytes=0-1023'')]))) = 206
   \<and> Headers_get (headers (snd (handleRequest_2 sample_platform
      (sample_request ''GET''
         ''https://proxy.example/?vid=aHR0cHM6Ly9zdG9yYWdlLmdvb2dsZWFwaXMuY29tL3YubXA0''
         [(''Range'', ''bytes=0-1023'')])))) ''Content-Range'' = Some ''bytes 0-99/1000''
   \<and> Headers_get (headers (snd (handleRequest_2 sample_platform
      (sample_request ''GET''
         ''https://proxy.example/?vid=aHR0cHM6Ly9zdG9yYWdlLmdvb2dsZWFwaXMuY29tL3YubXA0''
         [(''Range'', ''bytes=0-1023'')])))) ''Content-Length'' = Some ''100''"
proof -
  let ?r = "sample_request ''GET''
         ''https://proxy.example/?vid=aHR0cHM6Ly9zdG9yYWdlLmdvb2dsZWFwaXMuY29tL3YubXA0''
         [(''Range'', ''bytes=0-1023'')]"
  let ?rq = "outbound ?r ''https://storage.googleapis.com/v.mp4''"
  let ?origin = "\<lparr>headers = [''content-type'' \<mapsto> ''video/mp4'', ''content-length'' \<mapsto> ''100'',
                        ''content-range'' \<mapsto> ''bytes 0-99/1000'', ''server'' \<mapsto> ''UploadServer''],
             body = Some ''bytes'', status = 206\<rparr>"
  have a: "handleRequest_2 sample_platform ?r = handleRequest sample_platform ?r
      \<or> handleRequest_2 sample_platform ?r = handleRequest_with sample_platform allowedDomains_2 ?r"
    by (simp add: handleRequest_2_def)
  have b: "fst (handleRequest_2 sample_platform ?r) = Some ?rq"
    by (simp add: sample_storage)
  have c: "fetch sample_platform ?rq = Inr ?origin"
    by (simp add: sample_simps sample_fetch_def)
  from relay_preserves_origin [OF a b c] show ?thesis
    by (simp add: has_simps)
qed

text \<open>
  C6 as stated fails for an origin response that the Response constructor refuses. On the
  sample platform the origin \<^verbatim>\<open>https://commondatastorage.googleapis.com/v.mp4\<close> answers with
  the status 999; both files hand the request to \<^verbatim>\<open>fetch\<close>, and both answer 500, not 999.
\<close>

theorem relay_status_counterexample:
  \<open>atob ''aHR0cHM6Ly9jb21tb25kYXRhc3RvcmFnZS5nb29nbGVhcGlzLmNvbS92Lm1wNA==''
       = Some ''https://commondatastorage.googleapis.com/v.mp4''
   \<and> (case fst (handleRequest_2 sample_platform
          (sample_request ''GET''
             ''https://proxy.example/?vid=aHR0cHM6Ly9jb21tb25kYXRhc3RvcmFnZS5nb29nbGVhcGlzLmNvbS92Lm1wNA==''
             [])) of
        None \<Rightarrow> False
      | Some rq \<Rightarrow> url rq = ''https://commondatastorage.googleapis.com/v.mp4''
          \<and> map_sum id status (fetch sample_platform rq) = Inr 999)
   \<and> status (snd (handleRequest_2 sample_platform
        (sample_request ''GET''
           ''https://proxy.example/?vid=aHR0cHM6Ly9jb21tb25kYXRhc3RvcmFnZS5nb29nbGVhcGlzLmNvbS92Lm1wNA==''
           []))) = 500
   \<and> status (snd (handleRequest sample_platform
        (sample_request ''GET''
           ''https://proxy.example/?vid=aHR0cHM6Ly9jb21tb25kYXRhc3RvcmFnZS5nb29nbGVhcGlzLmNvbS92Lm1wNA==''
           []))) = 500
   \<and> body (snd (handleRequest_2 sample_platform
        (sample_request ''GET''
           ''https://proxy.example/?vid=aHR0cHM6Ly9jb21tb25kYXRhc3RvcmFnZS5nb29nbGVhcGlzLmNvbS92Lm1wNA==''
           [])))
       = Some ''{"error":"Server error","message":"Responses may only be constructed with status codes in the range 200 to 599, inclusive."}''\<close>
  by code_simp

section \<open>C7: CORS preflight\<close>

text \<open>
  C7. A request whose method is \<^verbatim>\<open>OPTIONS\<close> is answered at once, in both files: status 200, no
  body, exactly the three CORS headers. The result names neither the platform nor any other
  part of the request: no request is handed to \<^verbatim>\<open>fetch\<close> (the first component is \<open>None\<close>) and
  the \<^verbatim>\<open>vid\<close> parameter is not looked at.
\<close>

theorem options_preflight:
  assumes "http_method request = ''OPTIONS''"
  shows "handleRequest P request = (None, cors_preflight)
     \<and> handleRequest_with P ds request = (None, cors_preflight)
     \<and> status cors_preflight = 200
     \<and> body cors_preflight = None
     \<and> headers cors_preflight =
         [''access-control-allow-origin'' \<mapsto> ''*'',
          ''access-control-allow-methods'' \<mapsto> ''GET, HEAD, OPTIONS'',
          ''access-control-allow-headers'' \<mapsto> ''Range, Content-Type'']"
  using assms by (simp add: handleRequest_def handleRequest_with_def cors_preflight_sel)

theorem options_preflight_witness:
  "handleRequest sample_platform
     (sample_request ''OPTIONS'' ''https://proxy.example/?vid=aHR0cDovLw=='' [(''Range'', ''bytes=0-9'')])
     = (None, cors_preflight)
   \<and> handleRequest_2 sample_platform
     (sample_request ''OPTIONS'' ''https://proxy.example/?vid=aHR0cDovLw=='' [(''Range'', ''bytes=0-9'')])
     = (None, cors_preflight)
   \<and> status cors_preflight = 200"
  using options_preflight
    [of "sample_request ''OPTIONS'' ''https://proxy.example/?vid=aHR0cDovLw=='' [(''Range'', ''bytes=0-9'')]"
        sample_platform allowedDomains_2]
  by (simp add: sample_simps handleRequest_2_def)

section \<open>C8: the token decoder\<close>

text \<open>
  C8. For a request that is not \<^verbatim>\<open>OPTIONS\<close>, in both files (\<open>u\<close> is the parsed URL of the
  request itself, which the platform guarantees to parse): when the \<^verbatim>\<open>vid\<close> parameter is absent
  the response is 400 with body \<^verbatim>\<open>{"error":"Missing video ID"}\<close>; when it is present and \<^verbatim>\<open>atob\<close>
  throws, the response is 400 with body \<^verbatim>\<open>{"error":"Invalid video ID"}\<close>, not a 500.
\<close>

theorem token_decoder_errors:
  assumes "http_method request \<noteq> ''OPTIONS''"
    and "URL_new P (url request) = Inr u"
    and "result = handleRequest P request \<or> result = handleRequest_with P ds request"
  shows \<open>(searchParams_get u ''vid'' = None \<longrightarrow>
            result = (None, error_response 400 [(''error'', ''Missing video ID'')]))
     \<and> (\<forall>v. searchParams_get u ''vid'' = Some v \<and> atob v = None \<longrightarrow>
            result = (None, error_response 400 [(''error'', ''Invalid video ID'')]))
     \<and> status (error_response 400 [(''error'', ''Missing video ID'')]) = 400
     \<and> body (error_response 400 [(''error'', ''Missing video ID'')])
         = Some ''{"error":"Missing video ID"}''
     \<and> status (error_response 400 [(''error'', ''Invalid video ID'')]) = 400
     \<and> body (error_response 400 [(''error'', ''Invalid video ID'')])
         = Some ''{"error":"Invalid video ID"}''\<close>
proof -
  note hw = handleRequest_with_catch [OF assms(1), of P ds]
  note h1 = handleRequest_catch [OF assms(1), of P]
  have "result = (None, error_response 400 [(''error'', ''Missing video ID'')])"
    if "searchParams_get u ''vid'' = None"
    using that assms(3)
    by (auto simp: hw h1 try_with_unfold(2) [OF assms(2)] try_worker_unfold(2) [OF assms(2)]
        catch_simps)
  moreover have "result = (None, error_response 400 [(''error'', ''Invalid video ID'')])"
    if "searchParams_get u ''vid'' = Some v" "atob v = None" for v
  proof -
    from that(2) have "v \<noteq> []" using atob_Nil by auto
    with that assms(3) show ?thesis
      by (auto simp: hw h1 try_with_unfold(4) [OF assms(2)] try_worker_unfold(4) [OF assms(2)]
          catch_simps)
  qed
  ultimately show ?thesis
    by (simp add: error_response_sel json_bodies)
qed

theorem token_decoder_errors_witness:
  \<open>handleRequest sample_platform (sample_request ''GET'' ''https://proxy.example/'' [])
     = (None, error_response 400 [(''error'', ''Missing video ID'')])
   \<and> handleRequest_2 sample_platform (sample_request ''GET'' ''https://proxy.example/?vid=a'' [])
     = (None, error_response 400 [(''error'', ''Invalid video ID'')])
   \<and> body (error_response 400 [(''error'', ''Missing video ID'')])
       = Some ''{"error":"Missing video ID"}''\<close>
proof -
  let ?r1 = "sample_request ''GET'' ''https://proxy.example/'' []"
  let ?r2 = "sample_request ''GET'' ''https://proxy.example/?vid=a'' []"
  have m: "http_method ?r1 \<noteq> ''OPTIONS''" "http_method ?r2 \<noteq> ''OPTIONS''"
    by (simp_all add: sample_simps)
  have u1: "URL_new sample_platform (url ?r1)
      = Inr \<lparr>href = ''https://proxy.example/'', hostname = ''proxy.example'', searchParams = []\<rparr>"
    by (simp add: sample_simps sample_request_url)
  have u2: "URL_new sample_platform (url ?r2)
      = Inr \<lparr>href = ''https://proxy.example/?vid=a'', hostname = ''proxy.example'',
             searchParams = [(''vid'', ''a'')]\<rparr>"
    by (simp add: sample_simps sample_request_url)
  from token_decoder_errors [OF m(1) u1, of "handleRequest sample_platform ?r1" allowedDomains_2]
       token_decoder_errors [OF m(2) u2, of "handleRequest_2 sample_platform ?r2" allowedDomains_2]
  show ?thesis
    by (simp add: searchParams_get_def sample_atob handleRequest_2_def)
qed

section \<open>C9: the token round trip\<close>

text \<open>
  C9 (amended). For every string of ASCII characters (every code unit below U+0080), in
  particular every \<^verbatim>\<open>http://\<close> or \<^verbatim>\<open>https://\<close> URL written in ASCII, encoding it as a token and
  decoding the token with \<^verbatim>\<open>atob\<close>, as the handler does, yields the string exactly.
\<close>

theorem token_roundtrip_ascii:
  assumes "\<forall>c\<in>set s. (of_char c :: nat) < 128"
  shows "atob (token_encode s) = Some s"
proof -
  have "\<forall>b\<in>set (map of_char s :: nat list). b < 256" by simp
  then have "atob (base64_encode (map of_char s)) = Some (map char_of (map of_char s :: nat list))"
    by (rule atob_base64_encode)
  then show ?thesis by (simp add: token_encode_def utf8_encode_ascii [OF assms])
qed

theorem token_roundtrip_ascii_witness:
  "list_all (\<lambda>c. (of_char c :: nat) < 128) ''https://example.com/v.mp4''
   \<and> token_encode ''https://example.com/v.mp4'' = ''aHR0cHM6Ly9leGFtcGxlLmNvbS92Lm1wNA==''
   \<and> atob (token_encode ''https://example.com/v.mp4'') = Some ''https://example.com/v.mp4''"
proof -
  have ascii: "\<forall>c\<in>set ''https://example.com/v.mp4''. (of_char c :: nat) < 128" by simp
  have enc: "token_encode ''https://example.com/v.mp4'' = ''aHR0cHM6Ly9leGFtcGxlLmNvbS92Lm1wNA==''"
    by code_simp
  from ascii have "list_all (\<lambda>c. (of_char c :: nat) < 128) ''https://example.com/v.mp4''"
    by (simp only: list_all_iff)
  with enc token_roundtrip_ascii [OF ascii] show ?thesis by (simp only: simp_thms)
qed

text \<open>
  C9 as stated fails beyond ASCII. The URL \<^verbatim>\<open>https://example.com/\<close> followed by U+00E9
  (e with acute accent) is encoded in UTF-8 as two bytes; \<^verbatim>\<open>atob\<close> returns them as two code
  units, U+00C3 and U+00A9, so the decoded string is not the URL that was encoded.
\<close>

theorem token_roundtrip_counterexample:
  "startsWith (''https://example.com/'' @ [CHR 0xE9]) ''https://''
   \<and> token_encode (''https://example.com/'' @ [CHR 0xE9]) = ''aHR0cHM6Ly9leGFtcGxlLmNvbS/DqQ==''
   \<and> atob (token_encode (''https://example.com/'' @ [CHR 0xE9]))
       = Some (''https://example.com/'' @ [CHR 0xC3, CHR 0xA9])
   \<and> atob (token_encode (''https://example.com/'' @ [CHR 0xE9]))
       \<noteq> Some (''https://example.com/'' @ [CHR 0xE9])"
  by code_simp

section \<open>C10: error responses\<close>

text \<open>
  C10. For a request that is not \<^verbatim>\<open>OPTIONS\<close>, in both files, the response is either the relay
  of a response that \<^verbatim>\<open>fetch\<close> returned, or an error response: its status is 400, 403 or 500
  and it carries exactly one header, \<^verbatim>\<open>Content-Type: application/json\<close>, so none of the three
  CORS headers.
\<close>

theorem error_responses_json_only:
  assumes "http_method request \<noteq> ''OPTIONS''"
    and "result = handleRequest P request \<or> result = handleRequest_with P ds request"
  shows "(\<exists>rq origin r. result = (Some rq, r) \<and> fetch P rq = Inr origin
            \<and> relay P origin = Inr r)
     \<or> (headers (snd result) = [''content-type'' \<mapsto> ''application/json'']
        \<and> status (snd result) \<in> {400, 403, 500}
        \<and> \<not> Headers_has (headers (snd result)) ''Access-Control-Allow-Origin''
        \<and> \<not> Headers_has (headers (snd result)) ''Access-Control-Allow-Methods''
        \<and> \<not> Headers_has (headers (snd result)) ''Access-Control-Allow-Headers'')"
  using handler_cases [OF assms]
  by (elim disjE exE conjE)
     (simp_all add: error_response_sel server_error_sel has_simps)

theorem error_responses_json_only_witness:
  "headers (snd (handleRequest sample_platform (sample_request ''GET'' ''https://proxy.example/'' [])))
     = [''content-type'' \<mapsto> ''application/json'']
   \<and> status (snd (handleRequest sample_platform (sample_request ''GET'' ''https://proxy.example/'' [])))
     = 400"
proof -
  let ?r = "sample_request ''GET'' ''https://proxy.example/'' []"
  have m: "http_method ?r \<noteq> ''OPTIONS''" by (simp add: sample_simps)
  have res: "handleRequest sample_platform ?r
      = (None, error_response 400 [(''error'', ''Missing video ID'')])"
    by (rule sample_missing(1)) simp
  from error_responses_json_only [OF m, of "handleRequest sample_platform ?r" sample_platform "[]"]
  show ?thesis
    by (simp add: res error_response_sel)
qed

end
